theory Spec2Isabelle
  imports Complex_Main
begin

section \<open>Numbers and arrays\<close>

text \<open>
  The controller is written in JavaScript, whose numbers are double-precision floats.  A
  finite double is modelled as the real number it denotes, and \<open>binary64\<close> rounds a real
  to the nearest double, ties to the even significand, which is what reading a decimal
  literal and each of \<^verbatim>\<open>+\<close>, \<^verbatim>\<open>-\<close>, \<^verbatim>\<open>*\<close>, \<^verbatim>\<open>/\<close> and
  \<^verbatim>\<open>Math.sqrt\<close> do.  The exponent range is not modelled: there is no overflow to
  infinity and no gradual underflow.  The rounding is written out for the literals of the
  limit tables and of the link parameters, for the soft bounds of the supervisor and for
  the reach test of the inverse kinematics, where it decides a comparison; the angles
  that the kinematics computes with \<^verbatim>\<open>sin\<close>, \<^verbatim>\<open>cos\<close>, \<^verbatim>\<open>atan2\<close> and
  \<^verbatim>\<open>asin\<close> are taken exact, and \<^verbatim>\<open>Math.PI\<close> is \<open>pi\<close>.
\<close>

definition roundTiesToEven :: "real \<Rightarrow> int" where
  "roundTiesToEven r =
     (let f = \<lfloor>r\<rfloor>; d = r - of_int f
      in if d < 1 / 2 then f else if 1 / 2 < d then f + 1 else if even f then f else f + 1)"

text \<open>
  A nonzero \<open>x\<close> with \<open>2\<^sup>e \<le> \<bar>x\<bar> < 2\<^sup>e\<^sup>+\<^sup>1\<close> is rounded to a multiple of
  \<open>2\<^sup>e\<^sup>-\<^sup>5\<^sup>2\<close>: a double has 53 significant bits.
\<close>

definition binary64 :: "real \<Rightarrow> real" where
  "binary64 x =
     (if x = 0 then 0
      else (let q = 2 powr (of_int \<lfloor>log 2 \<bar>x\<bar>\<rfloor> - 52)
            in of_int (roundTiesToEven (x / q)) * q))"

text \<open>
  An array slot holds a \<open>num\<close>: \<open>Some r\<close> is the number \<open>r\<close>, and \<open>None\<close> stands
  for a value that is not a number (\<^verbatim>\<open>NaN\<close> or \<^verbatim>\<open>undefined\<close>, which behave alike
  under arithmetic and comparison: arithmetic yields \<^verbatim>\<open>NaN\<close> and every comparison is
  false).  Reading an array past its end yields \<^verbatim>\<open>undefined\<close>; writing past its end
  extends it.
\<close>

type_synonym num = "real option"

definition jread :: "num list \<Rightarrow> nat \<Rightarrow> num" where
  "jread xs i = (if i < length xs then xs ! i else None)"

definition jwrite :: "num list \<Rightarrow> nat \<Rightarrow> num \<Rightarrow> num list" where
  "jwrite xs i v =
     (if i < length xs then xs[i := v] else xs @ replicate (i - length xs) None @ [v])"

text \<open>Arrays that the code itself fills with numbers only are lists of reals.\<close>

definition jget :: "'a list \<Rightarrow> nat \<Rightarrow> 'a option" where
  "jget xs i = (if i < length xs then Some (xs ! i) else None)"

section \<open>RobotController.js: the motion control loop\<close>

record jointLimit =
  lim_min :: real
  lim_max :: real

text \<open>The table \<^verbatim>\<open>JOINT_LIMITS\<close> (radians); each literal is the double it reads as.\<close>

definition JOINT_LIMITS :: "jointLimit list" where
  "JOINT_LIMITS =
    [\<lparr>lim_min = - binary64 2.97, lim_max = binary64 2.97\<rparr>,
     \<lparr>lim_min = - binary64 2.27, lim_max = binary64 2.27\<rparr>,
     \<lparr>lim_min = - binary64 2.97, lim_max = binary64 2.97\<rparr>,
     \<lparr>lim_min = - binary64 3.05, lim_max = binary64 3.05\<rparr>,
     \<lparr>lim_min = - binary64 2.27, lim_max = binary64 2.27\<rparr>,
     \<lparr>lim_min = - binary64 6.28, lim_max = binary64 6.28\<rparr>]"

record flatPose =
  ee_x :: real
  ee_y :: real
  ee_z :: real
  ee_rx :: real
  ee_ry :: real
  ee_rz :: real

text \<open>
  One write of a service data object to a drive: slave, index, sub-index, value, bit size.
  The field bus is external; the model records the writes the controller issues.
\<close>

type_synonym sdoWrite = "nat \<times> nat \<times> nat \<times> nat \<times> nat"

record controller =
  isConnected :: bool
  isMoving :: bool
  simulationMode :: bool
  hasEthercatMaster :: bool
  currentJoints :: "num list"
  targetJoints :: "num list"
  endEffectorPose :: flatPose
  sdoWrites :: "sdoWrite list"
  controllerLog :: "string list"

text \<open>
  \<^verbatim>\<open>emergencyStop()\<close>: the target becomes a copy of the current joints, the moving flag
  is cleared, and outside simulation mode the quick-stop control word \<^verbatim>\<open>0x010F\<close>
  is written to object \<^verbatim>\<open>0x6040\<close> of each of the six drives.
\<close>

definition emergencyStop :: "controller \<Rightarrow> controller" where
  "emergencyStop c =
     c\<lparr>targetJoints := currentJoints c,
       isMoving := False,
       sdoWrites := sdoWrites c @
         (if \<not> simulationMode c \<and> hasEthercatMaster c
          then map (\<lambda>i. (i, 0x6040, 0x00, 0x010F, 16)) [0..<6] else []),
       controllerLog := controllerLog c @ [''Emergency stop executed'']\<rparr>"

text \<open>The controller as its constructor leaves it.\<close>

definition initialController :: controller where
  "initialController =
     \<lparr>isConnected = False, isMoving = False, simulationMode = False,
      hasEthercatMaster = False,
      currentJoints = [Some 0, Some 0, Some 0, Some 0, Some 0, Some 0],
      targetJoints = [Some 0, Some 0, Some 0, Some 0, Some 0, Some 0],
      endEffectorPose = \<lparr>ee_x = 0, ee_y = 0, ee_z = 0, ee_rx = 0, ee_ry = 0, ee_rz = 0\<rparr>,
      sdoWrites = [], controllerLog = []\<rparr>"

definition getCurrentJoints :: "controller \<Rightarrow> num list" where
  "getCurrentJoints c = currentJoints c"

definition getEndEffectorPose :: "controller \<Rightarrow> flatPose" where
  "getEndEffectorPose c = endEffectorPose c"

datatype error =
    JointLimitExceeded nat num
  | TypeError

text \<open>
  \<^verbatim>\<open>checkJointLimits(jointIndex, angle)\<close> of the controller.  An index outside the table
  reads \<^verbatim>\<open>undefined\<close>, and reading \<^verbatim>\<open>.min\<close> of it throws a
  \<^verbatim>\<open>TypeError\<close>.
\<close>

definition rc_checkJointLimits :: "nat \<Rightarrow> num \<Rightarrow> error + bool" where
  "rc_checkJointLimits jointIndex angle =
     (case jget JOINT_LIMITS jointIndex of
        None \<Rightarrow> Inl TypeError
      | Some limits \<Rightarrow>
          Inr (case angle of
                 None \<Rightarrow> False
               | Some a \<Rightarrow> lim_min limits \<le> a \<and> a \<le> lim_max limits))"

text \<open>
  The move commands are \<^verbatim>\<open>async\<close>: they run up to their first \<^verbatim>\<open>await\<close>
  at once, and a \<^verbatim>\<open>throw\<close> before it rejects the call.  While the command waits in
  \<^verbatim>\<open>waitForMovementComplete\<close> the timers of the control loop and of the supervisor
  run; what they do to the controller in that time is the parameter \<open>wait\<close>.  The result
  pairs the error thrown, if any, with the controller as the call leaves it.  Neither
  command reads its \<^verbatim>\<open>speed\<close> argument, which is left out.
\<close>

definition moveJoint ::
  "(controller \<Rightarrow> controller) \<Rightarrow> controller \<Rightarrow> nat \<Rightarrow> num \<Rightarrow> error option \<times> controller" where
  "moveJoint wait c jointIndex targetAngle =
     (case rc_checkJointLimits jointIndex targetAngle of
        Inl e \<Rightarrow> (Some e, c)
      | Inr False \<Rightarrow> (Some (JointLimitExceeded (jointIndex + 1) targetAngle), c)
      | Inr True \<Rightarrow>
          (None,
           (wait (c\<lparr>targetJoints := jwrite (targetJoints c) jointIndex targetAngle,
                    isMoving := True\<rparr>))\<lparr>isMoving := False\<rparr>))"

text \<open>The loop of \<^verbatim>\<open>moveJoints\<close> over the six joints, throwing at the first bad one.\<close>

fun checkAllJoints :: "num list \<Rightarrow> nat list \<Rightarrow> error option" where
  "checkAllJoints targets [] = None"
| "checkAllJoints targets (i # is) =
     (case rc_checkJointLimits i (jread targets i) of
        Inl e \<Rightarrow> Some e
      | Inr False \<Rightarrow> Some (JointLimitExceeded (i + 1) (jread targets i))
      | Inr True \<Rightarrow> checkAllJoints targets is)"

definition moveJoints ::
  "(controller \<Rightarrow> controller) \<Rightarrow> controller \<Rightarrow> num list \<Rightarrow> error option \<times> controller" where
  "moveJoints wait c targets =
     (case checkAllJoints targets [0..<6] of
        Some e \<Rightarrow> (Some e, c)
      | None \<Rightarrow>
          (None,
           (wait (c\<lparr>targetJoints := targets, isMoving := True\<rparr>))\<lparr>isMoving := False\<rparr>))"

section \<open>SafetyMonitor.js: the safety supervisor\<close>

record safetyLimit =
  s_min :: real
  s_max :: real
  s_margin :: real

definition jointLimits :: "safetyLimit list" where
  "jointLimits =
    [\<lparr>s_min = - binary64 2.97, s_max = binary64 2.97, s_margin = binary64 0.05\<rparr>,
     \<lparr>s_min = - binary64 2.27, s_max = binary64 2.27, s_margin = binary64 0.05\<rparr>,
     \<lparr>s_min = - binary64 2.97, s_max = binary64 2.97, s_margin = binary64 0.05\<rparr>,
     \<lparr>s_min = - binary64 3.05, s_max = binary64 3.05, s_margin = binary64 0.05\<rparr>,
     \<lparr>s_min = - binary64 2.27, s_max = binary64 2.27, s_margin = binary64 0.05\<rparr>,
     \<lparr>s_min = - binary64 6.28, s_max = binary64 6.28, s_margin = binary64 0.05\<rparr>]"

record axisLimit =
  ax_min :: real
  ax_max :: real

text \<open>The workspace box, in millimetres; its bounds are integers, which are doubles.\<close>

definition workspace_x :: axisLimit where "workspace_x = \<lparr>ax_min = - 400, ax_max = 400\<rparr>"
definition workspace_y :: axisLimit where "workspace_y = \<lparr>ax_min = - 400, ax_max = 400\<rparr>"
definition workspace_z :: axisLimit where "workspace_z = \<lparr>ax_min = 0, ax_max = 600\<rparr>"

record violation =
  v_joint :: nat
  v_value :: real
  v_limit :: string
  v_safeValue :: real

record axisViolation =
  av_axis :: string
  av_value :: real
  av_limit :: string

text \<open>The events the supervisor emits; time stamps are readings of the clock.\<close>

datatype event =
    WarningJointLimit "violation list"
  | WarningWorkspaceLimit "axisViolation list"
  | ProtectiveStopEvent string nat
  | EmergencyStopEvent string nat
  | CollisionEvent nat string
  | ResetEvent

record safetyStatus =
  isActive :: bool
  emergencyStopped :: bool
  limitViolations :: "violation list"
  collisionDetected :: bool
  lastCheckTime :: nat

record monitor =
  robotController :: controller
  status :: safetyStatus
  emitted :: "event list"
  safetyLog :: "string list"

text \<open>
  The supervisor as its constructor leaves it, watching controller \<open>c\<close>; \<open>now\<close> is
  the clock at construction.
\<close>

definition initialMonitor :: "controller \<Rightarrow> nat \<Rightarrow> monitor" where
  "initialMonitor c now =
     \<lparr>robotController = c,
      status = \<lparr>isActive = True, emergencyStopped = False, limitViolations = [],
                collisionDetected = False, lastCheckTime = now\<rparr>,
      emitted = [], safetyLog = [''Safety monitoring started'']\<rparr>"

text \<open>
  \<^verbatim>\<open>triggerProtectiveStop(reason)\<close>: the controller's target becomes a copy of its
  current joints; the reason is logged and emitted.
\<close>

definition triggerProtectiveStop :: "nat \<Rightarrow> string \<Rightarrow> monitor \<Rightarrow> monitor" where
  "triggerProtectiveStop now reason m =
     m\<lparr>safetyLog := safetyLog m @ [''Protective stop triggered: '' @ reason],
       robotController :=
         (robotController m)\<lparr>targetJoints := currentJoints (robotController m)\<rparr>,
       emitted := emitted m @ [ProtectiveStopEvent reason now]\<rparr>"

text \<open>\<^verbatim>\<open>triggerEmergencyStop(reason)\<close>.\<close>

definition triggerEmergencyStop :: "nat \<Rightarrow> string \<Rightarrow> monitor \<Rightarrow> monitor" where
  "triggerEmergencyStop now reason m =
     m\<lparr>status := (status m)\<lparr>emergencyStopped := True\<rparr>,
       safetyLog := safetyLog m @ [''Emergency stop triggered: '' @ reason],
       robotController := emergencyStop (robotController m),
       emitted := emitted m @ [EmergencyStopEvent reason now]\<rparr>"

text \<open>
  The soft bounds \<^verbatim>\<open>safeMin = limit.min + limit.margin\<close> and
  \<^verbatim>\<open>safeMax = limit.max - limit.margin\<close>, each the rounded result the code holds
  (for joint 1, \<^verbatim>\<open>2.97 - 0.05\<close> is \<^verbatim>\<open>2.9200000000000004\<close>).
\<close>

definition safeMin :: "safetyLimit \<Rightarrow> real" where
  "safeMin limit = binary64 (s_min limit + s_margin limit)"

definition safeMax :: "safetyLimit \<Rightarrow> real" where
  "safeMax limit = binary64 (s_max limit - s_margin limit)"

text \<open>
  The body of the loop of \<^verbatim>\<open>checkJointLimits(joints)\<close> for joint \<open>i\<close>: the
  violation it pushes, if any.  A slot that is not a number fails both comparisons.
\<close>

definition jointViolation :: "num list \<Rightarrow> nat \<Rightarrow> violation list" where
  "jointViolation joints i =
     (case jread joints i of
        None \<Rightarrow> []
      | Some joint \<Rightarrow>
          (let limit = jointLimits ! i
           in if joint < safeMin limit \<or> joint > safeMax limit
              then [\<lparr>v_joint = i + 1, v_value = joint,
                     v_limit = (if joint < safeMin limit then ''min'' else ''max''),
                     v_safeValue = (if joint < safeMin limit then safeMin limit
                                    else safeMax limit)\<rparr>]
              else []))"

definition sm_checkJointLimits :: "nat \<Rightarrow> monitor \<Rightarrow> num list \<Rightarrow> bool \<times> monitor" where
  "sm_checkJointLimits now m joints =
     (let violations = concat (map (jointViolation joints) [0..<6])
      in if length violations > 0
         then (let m1 = m\<lparr>status := (status m)\<lparr>limitViolations := violations\<rparr>,
                            safetyLog := safetyLog m @ [''Joint limit violations'']\<rparr>;
                   m2 = triggerProtectiveStop now ''Joint limit violation'' m1
               in (length violations = 0, m2\<lparr>emitted := emitted m2 @ [WarningJointLimit violations]\<rparr>))
         else (length violations = 0, m))"

definition axisViolations :: "string \<Rightarrow> axisLimit \<Rightarrow> real \<Rightarrow> axisViolation list" where
  "axisViolations name box v =
     (if v < ax_min box \<or> v > ax_max box
      then [\<lparr>av_axis = name, av_value = v,
             av_limit = (if v < ax_min box then ''min'' else ''max'')\<rparr>]
      else [])"

definition checkWorkspaceLimits :: "nat \<Rightarrow> monitor \<Rightarrow> flatPose \<Rightarrow> bool \<times> monitor" where
  "checkWorkspaceLimits now m pose =
     (let violations =
            axisViolations ''x'' workspace_x (ee_x pose) @
            axisViolations ''y'' workspace_y (ee_y pose) @
            axisViolations ''z'' workspace_z (ee_z pose)
      in if length violations > 0
         then (let m1 = m\<lparr>safetyLog := safetyLog m @ [''Workspace limit violations'']\<rparr>;
                   m2 = triggerProtectiveStop now ''Workspace limit violation'' m1
               in (length violations = 0,
                   m2\<lparr>emitted := emitted m2 @ [WarningWorkspaceLimit violations]\<rparr>))
         else (length violations = 0, m))"

text \<open>
  \<^verbatim>\<open>checkCollision()\<close>.  The value of \<^verbatim>\<open>Math.random()\<close>, a number in
  \<open>[0, 1)\<close>, is the parameter \<open>rnd\<close>; nothing else enters the decision.
\<close>

definition checkCollision :: "real \<Rightarrow> nat \<Rightarrow> monitor \<Rightarrow> bool \<times> monitor" where
  "checkCollision rnd now m =
     (let collisionProbability = rnd * 0.001
      in if collisionProbability > 0.0005
         then (let m1 = m\<lparr>status := (status m)\<lparr>collisionDetected := True\<rparr>,
                            safetyLog := safetyLog m @ [''Collision detected!'']\<rparr>;
                   m2 = triggerEmergencyStop now ''Collision detected'' m1
               in (True, m2\<lparr>emitted := emitted m2 @ [CollisionEvent now ''high'']\<rparr>))
         else (False, m))"

text \<open>
  \<^verbatim>\<open>performSafetyCheck()\<close>, run every 50 ms.  No step of its body throws in this
  model, so the \<^verbatim>\<open>catch\<close> branch does not appear.
\<close>

definition performSafetyCheck :: "real \<Rightarrow> nat \<Rightarrow> monitor \<Rightarrow> monitor" where
  "performSafetyCheck rnd now m =
     (if \<not> isActive (status m) then m
      else (let joints = getCurrentJoints (robotController m);
                pose = getEndEffectorPose (robotController m);
                m1 = snd (sm_checkJointLimits now m joints);
                m2 = snd (checkWorkspaceLimits now m1 pose);
                m3 = snd (checkCollision rnd now m2)
            in m3\<lparr>status := (status m3)\<lparr>lastCheckTime := now\<rparr>\<rparr>))"

definition reset :: "monitor \<Rightarrow> monitor" where
  "reset m =
     m\<lparr>status := (status m)\<lparr>emergencyStopped := False, limitViolations := [],
                              collisionDetected := False\<rparr>,
       safetyLog := safetyLog m @ [''Safety system reset''],
       emitted := emitted m @ [ResetEvent]\<rparr>"

text \<open>
  \<^verbatim>\<open>isNearSingularity(joints)\<close>.  \<^verbatim>\<open>Math.abs\<close>, \<^verbatim>\<open>Math.pow\<close> and
  \<^verbatim>\<open>Math.sqrt\<close> of a value that is not a number give \<^verbatim>\<open>NaN\<close>, and the
  comparison with \<open>0.1\<close> is then false.
\<close>

definition isNearSingularity :: "num list \<Rightarrow> bool" where
  "isNearSingularity joints =
     (if (case jread joints 4 of None \<Rightarrow> False | Some j5 \<Rightarrow> \<bar>\<bar>j5\<bar> - pi / 2\<bar> < 0.1)
      then True
      else if (case (jread joints 0, jread joints 1) of
                 (Some j1, Some j2) \<Rightarrow> sqrt (j1 ^ 2 + j2 ^ 2) < 0.1
               | _ \<Rightarrow> False)
      then True
      else False)"

text \<open>\<^verbatim>\<open>isTargetSafe(targetJoints)\<close>: hard limits first, then the singularity test.\<close>

definition outsideHardLimit :: "num list \<Rightarrow> nat \<Rightarrow> bool" where
  "outsideHardLimit target i =
     (case jread target i of
        None \<Rightarrow> False
      | Some t \<Rightarrow> t < s_min (jointLimits ! i) \<or> t > s_max (jointLimits ! i))"

definition isTargetSafe :: "num list \<Rightarrow> bool" where
  "isTargetSafe target =
     (if list_ex (outsideHardLimit target) [0..<6] then False
      else \<not> isNearSingularity target)"

text \<open>
  \<^verbatim>\<open>calculateSafeSpeed(targetJoints, currentJoints, desiredSpeed)\<close>.  The loop body for
  joint \<open>i\<close> updates the running ratio; a slot that is not a number makes
  \<^verbatim>\<open>minDistance\<close> \<^verbatim>\<open>NaN\<close>, the test false and the ratio unchanged.
\<close>

definition speedRatioStep :: "num list \<Rightarrow> real \<Rightarrow> nat \<Rightarrow> real" where
  "speedRatioStep target maxSpeedRatio i =
     (case jread target i of
        None \<Rightarrow> maxSpeedRatio
      | Some t \<Rightarrow>
          (let limit = jointLimits ! i;
               distanceToMin = \<bar>t - s_min limit\<bar>;
               distanceToMax = \<bar>t - s_max limit\<bar>;
               minDistance = min distanceToMin distanceToMax
           in if minDistance < 0.5 then min maxSpeedRatio (minDistance / 0.5)
              else maxSpeedRatio))"

definition calculateSafeSpeed :: "num list \<Rightarrow> num list \<Rightarrow> real \<Rightarrow> real" where
  "calculateSafeSpeed target current desiredSpeed =
     desiredSpeed * foldl (speedRatioStep target) 1.0 [0..<6]"


text \<open>
  The quantity of the deceleration policy: the distance from a target value \<open>t\<close> of joint
  \<open>i\<close> to the nearer of the two hard limits of that joint.
\<close>

definition limitDistance :: "real \<Rightarrow> nat \<Rightarrow> real" where
  "limitDistance t i = min \<bar>t - s_min (jointLimits ! i)\<bar> \<bar>t - s_max (jointLimits ! i)\<bar>"

section \<open>Matrices of the mathjs library\<close>

text \<open>
  The kinematics and the planner compute with dense matrices of the external library
  mathjs.  A matrix is the list of its rows.  Every index the code passes to
  \<^verbatim>\<open>get\<close>, \<^verbatim>\<open>set\<close> and \<^verbatim>\<open>subset\<close> is a literal inside the dimensions of
  the matrix it has just built.
\<close>

type_synonym matrix = "real list list"

definition mget :: "matrix \<Rightarrow> nat \<Rightarrow> nat \<Rightarrow> real" where
  "mget M i j = M ! i ! j"

definition mset :: "matrix \<Rightarrow> nat \<Rightarrow> nat \<Rightarrow> real \<Rightarrow> matrix" where
  "mset M i j v = M[i := (M ! i)[j := v]]"

definition math_identity :: "nat \<Rightarrow> matrix" where
  "math_identity n = map (\<lambda>i. map (\<lambda>j. if i = j then 1 else 0) [0..<n]) [0..<n]"

definition ncols :: "matrix \<Rightarrow> nat" where
  "ncols M = (case M of [] \<Rightarrow> 0 | r # _ \<Rightarrow> length r)"

definition math_multiply :: "matrix \<Rightarrow> matrix \<Rightarrow> matrix" where
  "math_multiply A B =
     map (\<lambda>row. map (\<lambda>j. \<Sum>k\<leftarrow>[0..<length row]. row ! k * mget B k j) [0..<ncols B]) A"

definition math_scale :: "matrix \<Rightarrow> real \<Rightarrow> matrix" where
  "math_scale A k = map (map (\<lambda>v. v * k)) A"

definition math_subtract :: "matrix \<Rightarrow> matrix \<Rightarrow> matrix" where
  "math_subtract A B = map2 (map2 (-)) A B"

text \<open>The upper left \<open>3 \<times> 3\<close> block, read and overwritten by \<^verbatim>\<open>subset\<close>.\<close>

definition subset3 :: "matrix \<Rightarrow> matrix" where
  "subset3 M = map (\<lambda>i. map (\<lambda>j. mget M i j) [0..<3]) [0..<3]"

definition subset3_replace :: "matrix \<Rightarrow> matrix \<Rightarrow> matrix" where
  "subset3_replace T R =
     map (\<lambda>i. map (\<lambda>j. if i < 3 \<and> j < 3 then mget R i j else mget T i j)
                 [0..<ncols T]) [0..<length T]"

text \<open>
  \<^verbatim>\<open>math.inv\<close> returns the inverse of a square matrix and throws when the determinant
  is zero.  Over the reals that is the adjugate divided by the determinant; the
  determinant is expanded along the first row.
\<close>

definition dropAt :: "nat \<Rightarrow> 'a list \<Rightarrow> 'a list" where
  "dropAt j xs = take j xs @ drop (Suc j) xs"

function math_det :: "matrix \<Rightarrow> real" where
  "math_det [] = 1"
| "math_det (r # rs) = (\<Sum>j\<leftarrow>[0..<length r]. (- 1) ^ j * (r ! j) * math_det (map (dropAt j) rs))"
  by pat_completeness auto
termination
  by (relation "measure length") auto

definition minor :: "matrix \<Rightarrow> nat \<Rightarrow> nat \<Rightarrow> matrix" where
  "minor M i j = map (dropAt j) (dropAt i M)"

definition math_inv :: "matrix \<Rightarrow> matrix option" where
  "math_inv M =
     (let n = length M
      in if n = 0 \<or> list_ex (\<lambda>row. length row \<noteq> n) M then None
         else if math_det M = 0 then None
         else Some (map (\<lambda>i. map (\<lambda>j. (- 1) ^ (i + j) * math_det (minor M j i) / math_det M)
                                   [0..<n]) [0..<n]))"

section \<open>Kinematics: the inverse kinematics solver\<close>

record dhParam =
  dh_a :: real
  dh_alpha :: real
  dh_d :: real
  dh_theta :: real

definition DH_PARAMS :: "dhParam list" where
  "DH_PARAMS =
    [\<lparr>dh_a = 0, dh_alpha = 0, dh_d = binary64 0.267, dh_theta = 0\<rparr>,
     \<lparr>dh_a = binary64 0.290, dh_alpha = - pi / 2, dh_d = 0, dh_theta = 0\<rparr>,
     \<lparr>dh_a = 0, dh_alpha = pi / 2, dh_d = binary64 0.342, dh_theta = 0\<rparr>,
     \<lparr>dh_a = 0, dh_alpha = - pi / 2, dh_d = 0, dh_theta = 0\<rparr>,
     \<lparr>dh_a = 0, dh_alpha = pi / 2, dh_d = binary64 0.342, dh_theta = 0\<rparr>,
     \<lparr>dh_a = 0, dh_alpha = - pi / 2, dh_d = 0, dh_theta = 0\<rparr>]"

record vec3 =
  p_x :: real
  p_y :: real
  p_z :: real

record euler =
  o_rx :: real
  o_ry :: real
  o_rz :: real

record pose =
  position :: vec3
  orientation :: euler

text \<open>\<^verbatim>\<open>Math.atan2(y, x)\<close> on finite numbers (the sign of a zero is not modelled).\<close>

definition atan2 :: "real \<Rightarrow> real \<Rightarrow> real" where
  "atan2 y x =
     (if x > 0 then arctan (y / x)
      else if x < 0 then (if y \<ge> 0 then arctan (y / x) + pi else arctan (y / x) - pi)
      else if y > 0 then pi / 2
      else if y < 0 then - pi / 2
      else 0)"

definition buildDHMatrix :: "real \<Rightarrow> real \<Rightarrow> real \<Rightarrow> real \<Rightarrow> matrix" where
  "buildDHMatrix a alpha d theta =
     (let ct = cos theta; st = sin theta; ca = cos alpha; sa = sin alpha
      in [[ct, - st, 0, a],
          [st * ca, ct * ca, - sa, - d * sa],
          [st * sa, ct * sa, ca, d * ca],
          [0, 0, 0, 1]])"

definition poseToMatrix :: "pose \<Rightarrow> matrix" where
  "poseToMatrix ps =
     (let x = p_x (position ps); y = p_y (position ps); z = p_z (position ps);
          rx = o_rx (orientation ps); ry = o_ry (orientation ps); rz = o_rz (orientation ps);
          Rx = [[1, 0, 0], [0, cos rx, - sin rx], [0, sin rx, cos rx]];
          Ry = [[cos ry, 0, sin ry], [0, 1, 0], [- sin ry, 0, cos ry]];
          Rz = [[cos rz, - sin rz, 0], [sin rz, cos rz, 0], [0, 0, 1]];
          R = math_multiply (math_multiply Rz Ry) Rx;
          T0 = subset3_replace (math_identity 4) R;
          T1 = mset T0 0 3 x;
          T2 = mset T1 1 3 y;
          T3 = mset T2 2 3 z
      in T3)"

definition calculateWristCenter :: "matrix \<Rightarrow> vec3" where
  "calculateWristCenter targetMatrix =
     (let zVector = [[mget targetMatrix 0 2], [mget targetMatrix 1 2], [mget targetMatrix 2 2]];
          d6 = dh_d (DH_PARAMS ! 5);
          wristCenter =
            math_subtract [[mget targetMatrix 0 3], [mget targetMatrix 1 3], [mget targetMatrix 2 3]]
                     (math_scale zVector d6)
      in \<lparr>p_x = mget wristCenter 0 0, p_y = mget wristCenter 1 0, p_z = mget wristCenter 2 0\<rparr>)"

text \<open>
  The trigonometric argument \<open>D\<close> of the position sub-problem, as the code computes it
  inside the loop over the two base rotations, from the wrist centre alone: every
  operation rounds.
\<close>

definition elbowArgument :: "vec3 \<Rightarrow> real" where
  "elbowArgument wristCenter =
     (let x = p_x wristCenter; y = p_y wristCenter; z = p_z wristCenter;
          r = binary64 (sqrt (binary64 (binary64 (x * x) + binary64 (y * y))));
          z_rel = binary64 (z - dh_d (DH_PARAMS ! 0));
          a2 = dh_a (DH_PARAMS ! 1);
          d4 = dh_d (DH_PARAMS ! 2)
      in binary64
           (binary64 (binary64 (binary64 (binary64 (r * r) + binary64 (z_rel * z_rel))
                                - binary64 (a2 * a2))
                      - binary64 (d4 * d4))
            / binary64 (binary64 (2 * a2) * d4)))"

text \<open>
  The body of the loop of \<^verbatim>\<open>solveFirstThreeJoints\<close> for one base rotation.  The test
  on \<open>D\<close> is the test on the double the code holds; the angles are computed from it with
  the exact functions.
\<close>

definition solveForBase :: "vec3 \<Rightarrow> real \<Rightarrow> real list list" where
  "solveForBase wristCenter theta1 =
     (let x = p_x wristCenter; y = p_y wristCenter; z = p_z wristCenter;
          r = binary64 (sqrt (binary64 (binary64 (x * x) + binary64 (y * y))));
          z_rel = binary64 (z - dh_d (DH_PARAMS ! 0));
          a2 = dh_a (DH_PARAMS ! 1);
          d4 = dh_d (DH_PARAMS ! 2);
          D = binary64
                (binary64 (binary64 (binary64 (binary64 (r * r) + binary64 (z_rel * z_rel))
                                     - binary64 (a2 * a2))
                           - binary64 (d4 * d4))
                 / binary64 (binary64 (2 * a2) * d4))
      in if \<bar>D\<bar> > 1 then []
         else (let theta3_offset = atan2 (sqrt (1 - D * D)) D
               in map (\<lambda>theta3.
                         (let k1 = a2 + d4 * cos theta3;
                              k2 = d4 * sin theta3;
                              theta2_base = atan2 z_rel r;
                              theta2_offset = atan2 k2 k1;
                              theta2 = theta2_base - theta2_offset
                          in [theta1, theta2, theta3, 0, 0, 0]))
                      [theta3_offset, - theta3_offset]))"

definition solveFirstThreeJoints :: "vec3 \<Rightarrow> real list list" where
  "solveFirstThreeJoints wristCenter =
     (let theta1_base = atan2 (p_y wristCenter) (p_x wristCenter)
      in concat (map (solveForBase wristCenter) [theta1_base, theta1_base + pi]))"

definition extractEulerAnglesFromRotation :: "matrix \<Rightarrow> euler" where
  "extractEulerAnglesFromRotation R =
     (let r11 = mget R 0 0; r12 = mget R 0 1; r13 = mget R 0 2;
          r21 = mget R 1 0; r31 = mget R 2 0; r32 = mget R 2 1; r33 = mget R 2 2
      in if \<bar>r31\<bar> < 0.99999
         then (let ry = - arcsin r31; cry = cos ry
               in \<lparr>o_rx = atan2 (r32 / cry) (r33 / cry), o_ry = ry,
                   o_rz = atan2 (r21 / cry) (r11 / cry)\<rparr>)
         else if r31 < 0
         then \<lparr>o_rx = 0, o_ry = pi / 2, o_rz = atan2 r12 r13\<rparr>
         else \<lparr>o_rx = 0, o_ry = - pi / 2, o_rz = atan2 (- r12) (- r13)\<rparr>)"

text \<open>
  The loop of \<^verbatim>\<open>solveLastThreeJoints\<close> that multiplies the transforms of the first
  three joints into \<^verbatim>\<open>T03\<close>.
\<close>

definition firstThreeTransform :: "real \<Rightarrow> real \<Rightarrow> real \<Rightarrow> matrix" where
  "firstThreeTransform theta1 theta2 theta3 =
     foldl (\<lambda>T i.
              math_multiply T
                (buildDHMatrix (dh_a (DH_PARAMS ! i)) (dh_alpha (DH_PARAMS ! i))
                   (dh_d (DH_PARAMS ! i))
                   (dh_theta (DH_PARAMS ! i) + [theta1, theta2, theta3] ! i)))
           (math_identity 4) [0..<3]"

text \<open>
  \<^verbatim>\<open>solveLastThreeJoints\<close>; \<open>None\<close> when \<^verbatim>\<open>math.inv\<close> throws.  Its first
  argument is always one of the six-element arrays \<^verbatim>\<open>solveFirstThreeJoints\<close> built,
  so the case of a shorter array is never reached.
\<close>

definition solveLastThreeJoints :: "real list \<Rightarrow> matrix \<Rightarrow> real list list option" where
  "solveLastThreeJoints baseSolution targetMatrix =
     (case baseSolution of
        theta1 # theta2 # theta3 # _ \<Rightarrow>
          (let T03 = firstThreeTransform theta1 theta2 theta3
           in case math_inv T03 of
                None \<Rightarrow> None
              | Some T03inv \<Rightarrow>
                  (let T36 = math_multiply T03inv targetMatrix;
                       R36 = subset3 T36;
                       e = extractEulerAnglesFromRotation R36;
                       theta4 = o_rx e; theta5 = o_ry e; theta6 = o_rz e
                   in Some [[theta1, theta2, theta3, theta4, theta5, theta6]]))
      | _ \<Rightarrow> None)"

text \<open>
  \<^verbatim>\<open>filterValidSolutions\<close>: a solution is dropped when the magnitude of one of its first
  six entries is above \<open>3.5\<close>.
\<close>

definition exceedsBound :: "real list \<Rightarrow> nat \<Rightarrow> bool" where
  "exceedsBound solution i = (case jget solution i of None \<Rightarrow> False | Some v \<Rightarrow> \<bar>v\<bar> > 3.5)"

definition filterValidSolutions :: "real list list \<Rightarrow> real list list" where
  "filterValidSolutions solutions =
     filter (\<lambda>solution. \<not> list_ex (exceedsBound solution) [0..<6]) solutions"

text \<open>\<^verbatim>\<open>inverseKinematics\<close>; an exception in its body is caught and gives the empty list.\<close>

definition inverseKinematics :: "pose \<Rightarrow> real list list" where
  "inverseKinematics targetPose =
     (let targetMatrix = poseToMatrix targetPose;
          wristCenter = calculateWristCenter targetMatrix;
          baseSolutions = solveFirstThreeJoints wristCenter
      in case those (map (\<lambda>baseSolution. solveLastThreeJoints baseSolution targetMatrix)
                         baseSolutions) of
           None \<Rightarrow> []
         | Some wristSolutions \<Rightarrow> filterValidSolutions (concat wristSolutions))"

text \<open>
  The sum of the link lengths and link offsets of the chain, the farthest the arm could
  reach from its base if all its links were laid out in a line.
\<close>

definition linkLengthSum :: real where
  "linkLengthSum = (\<Sum>p\<leftarrow>DH_PARAMS. dh_a p + dh_d p)"

text \<open>
  A target within reach, at the height of the shoulder, used as a concrete input: the
  position \<^verbatim>\<open>(0.3, 0.111, 0.267)\<close>.
\<close>

definition samplePose :: pose where
  "samplePose =
     \<lparr>position = \<lparr>p_x = binary64 0.3, p_y = binary64 0.111, p_z = binary64 0.267\<rparr>,
      orientation = \<lparr>o_rx = 0, o_ry = 0, o_rz = 0\<rparr>\<rparr>"

text \<open>
  The base rotation that \<^verbatim>\<open>Math.atan2\<close> gives for that target.
\<close>

definition sampleAngle :: real where
  "sampleAngle = arctan (binary64 0.111 / binary64 0.3)"

text \<open>
  A target on the edge of the reach, at the height of the shoulder: the position
  \<^verbatim>\<open>(0.37920000000000004, 0.5056, 0.267)\<close>, each coordinate the double it reads as.
\<close>

definition edgePosition :: vec3 where
  "edgePosition = \<lparr>p_x = 6831059914795569 / 2 ^ 54, p_y = 2277019971598523 / 2 ^ 52,
                    p_z = 4809844402031690 / 2 ^ 54\<rparr>"

section \<open>MotionPlanner: the trajectory planner\<close>

text \<open>The rest configuration, \<^verbatim>\<open>homePosition\<close>, the target of \<^verbatim>\<open>executeHoming\<close>.\<close>

definition homePosition :: "num list" where
  "homePosition = [Some 0, Some 0, Some (pi / 2), Some 0, Some (pi / 2), Some 0]"

definition quinticMatrix :: "real \<Rightarrow> matrix" where
  "quinticMatrix tf =
     [[1, 0, 0, 0, 0, 0],
      [0, 1, 0, 0, 0, 0],
      [0, 0, 2, 0, 0, 0],
      [1, tf, tf * tf, tf * tf * tf, tf * tf * tf * tf, tf * tf * tf * tf * tf],
      [0, 1, 2 * tf, 3 * tf * tf, 4 * tf * tf * tf, 5 * tf * tf * tf * tf],
      [0, 0, 2, 6 * tf, 12 * tf * tf, 20 * tf * tf * tf]]"

text \<open>
  \<^verbatim>\<open>quinticPolynomial(q0, qf, tf, v0, vf, a0, af)\<close>: \<open>None\<close> when \<^verbatim>\<open>math.inv\<close>
  throws, otherwise the trajectory function it returns.
\<close>

definition quinticPolynomial ::
  "real \<Rightarrow> real \<Rightarrow> real \<Rightarrow> real \<Rightarrow> real \<Rightarrow> real \<Rightarrow> real \<Rightarrow> (real \<Rightarrow> real) option" where
  "quinticPolynomial q0 qf tf v0 vf a0 af =
     (let M = quinticMatrix tf;
          b = [[q0], [v0], [a0], [qf], [vf], [af]]
      in case math_inv M of
           None \<Rightarrow> None
         | Some Minv \<Rightarrow>
             (let coeffs = math_multiply Minv b
              in Some (\<lambda>t. if t \<le> 0 then q0
                            else if t \<ge> tf then qf
                            else foldl (\<lambda>qt i. qt + mget coeffs i 0 * t ^ i) 0 [0..<6])))"

section \<open>Rounding to double precision\<close>

lemma roundTiesToEven_nearest:
  "\<bar>r - of_int (roundTiesToEven r)\<bar> < 1 / 2
   \<or> (\<bar>r - of_int (roundTiesToEven r)\<bar> = 1 / 2 \<and> even (roundTiesToEven r))"
proof -
  define f where "f = \<lfloor>r\<rfloor>"
  have f: "of_int f \<le> r" "r < of_int f + 1"
    unfolding f_def by linarith+
  show ?thesis
    unfolding roundTiesToEven_def Let_def f_def[symmetric]
    using f by (auto simp: abs_if)
qed

lemma roundTiesToEven_unique:
  assumes "\<bar>r - of_int k\<bar> < 1 / 2 \<or> (\<bar>r - of_int k\<bar> = 1 / 2 \<and> even k)"
  shows "roundTiesToEven r = k"
proof -
  define j where "j = roundTiesToEven r"
  have j: "\<bar>r - of_int j\<bar> < 1 / 2 \<or> (\<bar>r - of_int j\<bar> = 1 / 2 \<and> even j)"
    unfolding j_def by (rule roundTiesToEven_nearest)
  have "\<bar>of_int j - of_int k :: real\<bar> \<le> 1"
    using assms j by linarith
  then have d: "\<bar>j - k\<bar> \<le> 1"
    by linarith
  have "j = k"
  proof (rule ccontr)
    assume ne: "j \<noteq> k"
    with d have jk: "j = k + 1 \<or> j = k - 1"
      by linarith
    then have "\<bar>of_int j - of_int k :: real\<bar> = 1"
      by auto
    then have "\<bar>r - of_int k\<bar> = 1 / 2" "\<bar>r - of_int j\<bar> = 1 / 2"
      using assms j by linarith+
    then have "even k" "even j"
      using assms j by auto
    with jk show False by auto
  qed
  then show ?thesis by (simp add: j_def)
qed

lemma roundTiesToEven_minus: "roundTiesToEven (- r) = - roundTiesToEven r"
proof (rule roundTiesToEven_unique)
  show "\<bar>- r - of_int (- roundTiesToEven r)\<bar> < 1 / 2
        \<or> (\<bar>- r - of_int (- roundTiesToEven r)\<bar> = 1 / 2 \<and> even (- roundTiesToEven r))"
    using roundTiesToEven_nearest[of r] by (simp add: abs_if split: if_splits)
qed

lemma roundTiesToEven_error: "\<bar>r - of_int (roundTiesToEven r)\<bar> \<le> 1 / 2"
  using roundTiesToEven_nearest[of r] by linarith

lemma quantum_bounds:
  fixes x :: real
  assumes "x \<noteq> 0"
  shows "(2::real) powr (of_int \<lfloor>log 2 \<bar>x\<bar>\<rfloor> - 52) * 2 ^ 52 \<le> \<bar>x\<bar>"
proof -
  define q :: real where "q = 2 powr (of_int \<lfloor>log 2 \<bar>x\<bar>\<rfloor> - 52)"
  have "(2::real) powr (of_int \<lfloor>log 2 \<bar>x\<bar>\<rfloor>) \<le> 2 powr (log 2 \<bar>x\<bar>)"
    by (intro powr_mono) simp_all
  also have "\<dots> = \<bar>x\<bar>"
    using assms by simp
  finally have "(2::real) powr (of_int \<lfloor>log 2 \<bar>x\<bar>\<rfloor>) \<le> \<bar>x\<bar>" .
  moreover have "q * 2 ^ 52 = 2 powr (of_int \<lfloor>log 2 \<bar>x\<bar>\<rfloor>)"
  proof -
    have "q * 2 powr 52 = 2 powr (of_int \<lfloor>log 2 \<bar>x\<bar>\<rfloor> - 52 + 52)"
      unfolding q_def by (simp only: powr_add)
    then show ?thesis by simp
  qed
  ultimately show ?thesis by (simp add: q_def)
qed

text \<open>The relative error of one rounding is at most \<open>2\<^sup>-\<^sup>5\<^sup>3\<close>.\<close>

lemma binary64_error: "\<bar>binary64 x - x\<bar> \<le> \<bar>x\<bar> / 2 ^ 53"
proof (cases "x = 0")
  case True
  then show ?thesis by (simp add: binary64_def)
next
  case False
  define q :: real where "q = 2 powr (of_int \<lfloor>log 2 \<bar>x\<bar>\<rfloor> - 52)"
  have q: "0 < q" "q * 2 ^ 52 \<le> \<bar>x\<bar>"
    using quantum_bounds[OF False] by (simp_all add: q_def)
  have b: "binary64 x = of_int (roundTiesToEven (x / q)) * q"
    using False by (simp add: binary64_def Let_def q_def)
  have "\<bar>binary64 x - x\<bar> = \<bar>of_int (roundTiesToEven (x / q)) - x / q\<bar> * q"
  proof -
    have "binary64 x - x = (of_int (roundTiesToEven (x / q)) - x / q) * q"
      using q(1) by (simp add: b field_simps)
    then show ?thesis using q(1) by (simp add: abs_mult)
  qed
  also have "\<dots> \<le> (1 / 2) * q"
    using roundTiesToEven_error[of "x / q"] q(1)
    by (intro mult_right_mono) (simp_all add: abs_minus_commute)
  also have "\<dots> \<le> \<bar>x\<bar> / 2 ^ 53"
    using q(2) by simp
  finally show ?thesis .
qed

text \<open>How to compute a rounding: name the binade and the nearest multiple.\<close>

lemma binary64_eqI:
  fixes e k :: int
  assumes "(2::real) powr (of_int e) \<le> \<bar>x\<bar>" and "\<bar>x\<bar> < (2::real) powr (of_int e + 1)"
    and "\<bar>x - of_int k * (2::real) powr (of_int e - 52)\<bar> < (2::real) powr (of_int e - 52) / 2"
  shows "binary64 x = of_int k * (2::real) powr (of_int e - 52)"
proof -
  have x: "x \<noteq> 0"
    using assms(1) by (auto simp: abs_if split: if_splits)
  then have "0 < \<bar>x\<bar>"
    by simp
  then have e: "\<lfloor>log 2 \<bar>x\<bar>\<rfloor> = e"
    using assms(1,2) by (simp add: floor_log_eq_powr_iff)
  define q :: real where "q = 2 powr (of_int e - 52)"
  have q: "0 < q"
    by (simp add: q_def)
  have "\<bar>x / q - of_int k\<bar> * q = \<bar>x - of_int k * q\<bar>"
  proof -
    have "(x / q - of_int k) * q = x - of_int k * q"
      using q by (simp add: field_simps)
    then show ?thesis using q by (metis abs_mult abs_of_pos)
  qed
  also have "\<dots> < q / 2"
    using assms(3) by (simp add: q_def)
  finally have "\<bar>x / q - of_int k\<bar> < 1 / 2"
    using q by simp
  then have "roundTiesToEven (x / q) = k"
    by (intro roundTiesToEven_unique) simp
  then show ?thesis
    using x by (simp add: binary64_def Let_def e q_def)
qed

lemma binary64_minus: "binary64 (- x) = - binary64 x"
  by (simp add: binary64_def Let_def roundTiesToEven_minus)

lemma binary64_zero: "binary64 0 = 0"
  by (simp add: binary64_def)

lemma binary64_nonneg: "0 \<le> x \<Longrightarrow> 0 \<le> binary64 x"
  using binary64_error[of x] by (simp add: abs_if field_simps split: if_splits)

lemma binary64_pos: "0 < x \<Longrightarrow> 0 < binary64 x"
  using binary64_error[of x] by (simp add: abs_if field_simps split: if_splits)

lemma binary64_near:
  assumes "0 \<le> x"
  shows "(999999 / 1000000) * x \<le> binary64 x" and "binary64 x \<le> (1000001 / 1000000) * x"
proof -
  have "\<bar>binary64 x - x\<bar> \<le> x / 2 ^ 53"
    using binary64_error[of x] assms by simp
  moreover have "x / 2 ^ 53 \<le> x / 1000000"
    using assms by (intro divide_left_mono) simp_all
  ultimately have "\<bar>binary64 x - x\<bar> \<le> x / 1000000"
    by linarith
  then have "binary64 x - x \<le> x / 1000000" and "x - binary64 x \<le> x / 1000000"
    by linarith+
  then show "(999999 / 1000000) * x \<le> binary64 x" and "binary64 x \<le> (1000001 / 1000000) * x"
    by linarith+
qed

text \<open>
  Bounds on the rounded value of a bounded number, on the square of a rounded number, and
  on the square of the planar radius \<open>r\<close> as the solver computes it.
\<close>

lemma binary64_lower:
  assumes "0 \<le> l" and "l \<le> x"
  shows "(999999 / 1000000) * l \<le> binary64 x"
  using binary64_near(1)[of x] assms by linarith

lemma binary64_upper:
  assumes "0 \<le> x" and "x \<le> u"
  shows "binary64 x \<le> (1000001 / 1000000) * u"
  using binary64_near(2)[of x] assms by linarith

lemma binary64_abs: "\<bar>binary64 x\<bar> = binary64 \<bar>x\<bar>"
proof (cases "0 \<le> x")
  case True
  then show ?thesis using binary64_nonneg[of x] by simp
next
  case False
  then have "0 \<le> binary64 (- x)" by (intro binary64_nonneg) simp
  then show ?thesis using False by (simp add: binary64_minus)
qed

lemma binary64_square_lower: "(999998 / 1000000) * (x * x) \<le> binary64 x * binary64 x"
proof -
  have a: "(999999 / 1000000) * \<bar>x\<bar> \<le> \<bar>binary64 x\<bar>"
    unfolding binary64_abs by (rule binary64_near(1)) simp
  have "0 \<le> x * x" by simp
  then have "(999998 / 1000000) * (x * x) \<le> (999998000001 / 1000000000000) * (x * x)"
    by (intro mult_right_mono) simp_all
  also have "\<dots> = ((999999 / 1000000) * \<bar>x\<bar>) * ((999999 / 1000000) * \<bar>x\<bar>)"
    by (simp add: algebra_simps)
  also have "\<dots> \<le> \<bar>binary64 x\<bar> * \<bar>binary64 x\<bar>"
    using a by (intro mult_mono) simp_all
  also have "\<dots> = binary64 x * binary64 x" by simp
  finally show ?thesis .
qed

lemma lower_chain:
  fixes l a b c e k :: real
  assumes "0 \<le> l" and "c * l \<le> a" and "0 \<le> e" and "e * a \<le> b" and "k \<le> e * c"
  shows "k * l \<le> b"
proof -
  have "k * l \<le> (e * c) * l" using assms(1,5) by (rule mult_right_mono[rotated])
  also have "\<dots> = e * (c * l)" by simp
  also have "\<dots> \<le> e * a" using assms(2,3) by (rule mult_left_mono)
  also note assms(4)
  finally show ?thesis .
qed

lemma upper_chain:
  fixes l a b c e k :: real
  assumes "0 \<le> l" and "a \<le> c * l" and "0 \<le> e" and "b \<le> e * a" and "e * c \<le> k"
  shows "b \<le> k * l"
proof -
  note assms(4)
  also have "e * a \<le> e * (c * l)" using assms(2,3) by (rule mult_left_mono)
  also have "\<dots> = (e * c) * l" by simp
  also have "\<dots> \<le> k * l" using assms(5,1) by (rule mult_right_mono)
  finally show ?thesis .
qed

lemma binary64_square_upper: "binary64 x * binary64 x \<le> (1000003 / 1000000) * (x * x)"
proof -
  have a: "\<bar>binary64 x\<bar> \<le> (1000001 / 1000000) * \<bar>x\<bar>"
    unfolding binary64_abs by (rule binary64_near(2)) simp
  have "binary64 x * binary64 x = \<bar>binary64 x\<bar> * \<bar>binary64 x\<bar>" by simp
  also have "\<dots> \<le> ((1000001 / 1000000) * \<bar>x\<bar>) * ((1000001 / 1000000) * \<bar>x\<bar>)"
    using a by (intro mult_mono) simp_all
  also have "\<dots> = (1000002000001 / 1000000000000) * (x * x)"
    by (simp add: algebra_simps)
  also have "\<dots> \<le> (1000003 / 1000000) * (x * x)"
    by (intro mult_right_mono) simp_all
  finally show ?thesis .
qed

lemma radius_square:
  fixes x y :: real
  defines "r \<equiv> binary64 (sqrt (binary64 (binary64 (x * x) + binary64 (y * y))))"
  shows "(99999 / 100000) * (x * x + y * y) \<le> binary64 (r * r)"
    and "binary64 (r * r) \<le> (100001 / 100000) * (x * x + y * y)"
    and "0 < x * x + y * y \<Longrightarrow> 0 < r"
proof -
  define xx yy ss where "xx = binary64 (x * x)" and "yy = binary64 (y * y)"
    and "ss = binary64 (xx + yy)"
  have r: "r = binary64 (sqrt ss)" by (simp add: r_def ss_def xx_def yy_def)
  have sq: "0 \<le> x * x + y * y" by simp
  have xx: "(999999 / 1000000) * (x * x) \<le> xx" and yy: "(999999 / 1000000) * (y * y) \<le> yy"
    unfolding xx_def yy_def by (rule binary64_near(1); simp)+
  have xx': "xx \<le> (1000001 / 1000000) * (x * x)" and yy': "yy \<le> (1000001 / 1000000) * (y * y)"
    unfolding xx_def yy_def by (rule binary64_near(2); simp)+
  have xy: "(999999 / 1000000) * (x * x + y * y) \<le> xx + yy"
    unfolding distrib_left using xx yy by (rule add_mono)
  have xy': "xx + yy \<le> (1000001 / 1000000) * (x * x + y * y)"
    unfolding distrib_left using xx' yy' by (rule add_mono)
  have xy0: "0 \<le> xx + yy"
    unfolding xx_def yy_def by (intro add_nonneg_nonneg binary64_nonneg) simp_all
  have ss0: "0 \<le> ss" unfolding ss_def using xy0 by (rule binary64_nonneg)
  have f1: "(999999 / 1000000) * (xx + yy) \<le> ss"
    unfolding ss_def using xy0 by (rule binary64_near(1))
  have g1: "ss \<le> (1000001 / 1000000) * (xx + yy)"
    unfolding ss_def using xy0 by (rule binary64_near(2))
  have ss: "(999998 / 1000000) * (x * x + y * y) \<le> ss"
    by (rule lower_chain[OF sq xy _ f1]) simp_all
  have ss': "ss \<le> (1000003 / 1000000) * (x * x + y * y)"
    by (rule upper_chain[OF sq xy' _ g1]) simp_all
  have "(999998 / 1000000) * (sqrt ss * sqrt ss) \<le> r * r"
    unfolding r by (rule binary64_square_lower)
  then have f2: "(999998 / 1000000) * ss \<le> r * r" using ss0 by simp
  have "r * r \<le> (1000003 / 1000000) * (sqrt ss * sqrt ss)"
    unfolding r by (rule binary64_square_upper)
  then have g2: "r * r \<le> (1000003 / 1000000) * ss" using ss0 by simp
  have r2: "(999996 / 1000000) * (x * x + y * y) \<le> r * r"
    by (rule lower_chain[OF sq ss _ f2]) simp_all
  have r2': "r * r \<le> (1000007 / 1000000) * (x * x + y * y)"
    by (rule upper_chain[OF sq ss' _ g2]) simp_all
  have f3: "(999999 / 1000000) * (r * r) \<le> binary64 (r * r)"
    by (rule binary64_near(1)) simp
  have g3: "binary64 (r * r) \<le> (1000001 / 1000000) * (r * r)"
    by (rule binary64_near(2)) simp
  show "(99999 / 100000) * (x * x + y * y) \<le> binary64 (r * r)"
    by (rule lower_chain[OF sq r2 _ f3]) simp_all
  show "binary64 (r * r) \<le> (100001 / 100000) * (x * x + y * y)"
    by (rule upper_chain[OF sq r2' _ g3]) simp_all
  show "0 < r" if "0 < x * x + y * y"
  proof -
    have "0 < (999998 / 1000000) * (x * x + y * y)" using that by simp
    then have "0 < ss" using ss by linarith
    then show ?thesis unfolding r by (intro binary64_pos) simp
  qed
qed


text \<open>The doubles that the literals of the tables read as, and the soft bounds.\<close>

lemma double_297: "binary64 2.97 = 6687845446645187 / 2 ^ 51"
  using binary64_eqI[of "1" "2.97" 6687845446645187]
  by (simp add: powr_minus field_simps)

lemma double_227: "binary64 2.27 = 5111585577065513 / 2 ^ 51"
  using binary64_eqI[of "1" "2.27" 5111585577065513]
  by (simp add: powr_minus field_simps)

lemma double_305: "binary64 3.05 = 6867989431740006 / 2 ^ 51"
  using binary64_eqI[of "1" "3.05" 6867989431740006]
  by (simp add: powr_minus field_simps)

lemma double_628: "binary64 6.28 = 7070651414971679 / 2 ^ 50"
  using binary64_eqI[of "2" "6.28" 7070651414971679]
  by (simp add: powr_minus field_simps)

lemma double_005: "binary64 0.05 = 7205759403792794 / 2 ^ 57"
  using binary64_eqI[of "-5" "0.05" 7205759403792794]
  by (simp add: powr_minus field_simps)

lemma double_0267: "binary64 0.267 = 4809844402031690 / 2 ^ 54"
  using binary64_eqI[of "-2" "0.267" 4809844402031690]
  by (simp add: powr_minus field_simps)

lemma double_029: "binary64 0.290 = 5224175567749775 / 2 ^ 54"
  using binary64_eqI[of "-2" "0.290" 5224175567749775]
  by (simp add: powr_minus field_simps)

lemma double_0342: "binary64 0.342 = 6160924290242839 / 2 ^ 54"
  using binary64_eqI[of "-2" "0.342" 6160924290242839]
  by (simp add: powr_minus field_simps)

lemma double_03: "binary64 0.3 = 5404319552844595 / 2 ^ 54"
  using binary64_eqI[of "-2" "0.3" 5404319552844595]
  by (simp add: powr_minus field_simps)

lemma double_0111: "binary64 0.111 = 7998392938210001 / 2 ^ 56"
  using binary64_eqI[of "-4" "0.111" 7998392938210001]
  by (simp add: powr_minus field_simps)

lemma soft_297: "binary64 (binary64 2.97 - binary64 0.05) = 6575255455960925 / 2 ^ 51"
  unfolding double_297 double_005
  using binary64_eqI[of "1" "6687845446645187 / 2 ^ 51 - 7205759403792794 / 2 ^ 57" 6575255455960925]
  by (simp add: powr_minus field_simps)

lemma soft_227: "binary64 (binary64 2.27 - binary64 0.05) = 4998995586381251 / 2 ^ 51"
  unfolding double_227 double_005
  using binary64_eqI[of "1" "5111585577065513 / 2 ^ 51 - 7205759403792794 / 2 ^ 57" 4998995586381251]
  by (simp add: powr_minus field_simps)

lemma soft_305: "binary64 (binary64 3.05 - binary64 0.05) = 6755399441055744 / 2 ^ 51"
  unfolding double_305 double_005
  using binary64_eqI[of "1" "6867989431740006 / 2 ^ 51 - 7205759403792794 / 2 ^ 57" 6755399441055744]
  by (simp add: powr_minus field_simps)

lemma soft_628: "binary64 (binary64 6.28 - binary64 0.05) = 7014356419629548 / 2 ^ 50"
  unfolding double_628 double_005
  using binary64_eqI[of "2" "7070651414971679 / 2 ^ 50 - 7205759403792794 / 2 ^ 57" 7014356419629548]
  by (simp add: powr_minus field_simps)

lemmas double_literals =
  double_297 double_227 double_305 double_628 double_005
  double_0267 double_029 double_0342 double_03 double_0111

lemma JOINT_LIMITS_values:
  "JOINT_LIMITS =
    [\<lparr>lim_min = - (6687845446645187 / 2 ^ 51), lim_max = 6687845446645187 / 2 ^ 51\<rparr>,
     \<lparr>lim_min = - (5111585577065513 / 2 ^ 51), lim_max = 5111585577065513 / 2 ^ 51\<rparr>,
     \<lparr>lim_min = - (6687845446645187 / 2 ^ 51), lim_max = 6687845446645187 / 2 ^ 51\<rparr>,
     \<lparr>lim_min = - (6867989431740006 / 2 ^ 51), lim_max = 6867989431740006 / 2 ^ 51\<rparr>,
     \<lparr>lim_min = - (5111585577065513 / 2 ^ 51), lim_max = 5111585577065513 / 2 ^ 51\<rparr>,
     \<lparr>lim_min = - (7070651414971679 / 2 ^ 50), lim_max = 7070651414971679 / 2 ^ 50\<rparr>]"
  unfolding JOINT_LIMITS_def double_literals ..

lemma jointLimits_values:
  "jointLimits =
    [\<lparr>s_min = - (6687845446645187 / 2 ^ 51), s_max = 6687845446645187 / 2 ^ 51,
      s_margin = 7205759403792794 / 2 ^ 57\<rparr>,
     \<lparr>s_min = - (5111585577065513 / 2 ^ 51), s_max = 5111585577065513 / 2 ^ 51,
      s_margin = 7205759403792794 / 2 ^ 57\<rparr>,
     \<lparr>s_min = - (6687845446645187 / 2 ^ 51), s_max = 6687845446645187 / 2 ^ 51,
      s_margin = 7205759403792794 / 2 ^ 57\<rparr>,
     \<lparr>s_min = - (6867989431740006 / 2 ^ 51), s_max = 6867989431740006 / 2 ^ 51,
      s_margin = 7205759403792794 / 2 ^ 57\<rparr>,
     \<lparr>s_min = - (5111585577065513 / 2 ^ 51), s_max = 5111585577065513 / 2 ^ 51,
      s_margin = 7205759403792794 / 2 ^ 57\<rparr>,
     \<lparr>s_min = - (7070651414971679 / 2 ^ 50), s_max = 7070651414971679 / 2 ^ 50,
      s_margin = 7205759403792794 / 2 ^ 57\<rparr>]"
  unfolding jointLimits_def double_literals ..

lemma samplePose_values:
  "samplePose =
     \<lparr>position = \<lparr>p_x = 5404319552844595 / 2 ^ 54, p_y = 7998392938210001 / 2 ^ 56,
                   p_z = 4809844402031690 / 2 ^ 54\<rparr>,
      orientation = \<lparr>o_rx = 0, o_ry = 0, o_rz = 0\<rparr>\<rparr>"
  unfolding samplePose_def double_literals ..

lemma DH_PARAMS_values:
  "dh_d (DH_PARAMS ! 0) = 4809844402031690 / 2 ^ 54"
  "dh_a (DH_PARAMS ! 1) = 5224175567749775 / 2 ^ 54"
  "dh_d (DH_PARAMS ! 2) = 6160924290242839 / 2 ^ 54"
  "dh_d (DH_PARAMS ! 5) = 0"
  unfolding DH_PARAMS_def double_literals by simp_all

lemma linkLengthSum_bounds: "1.2409 < linkLengthSum" "linkLengthSum < 1.2411"
  unfolding linkLengthSum_def DH_PARAMS_def double_literals by simp_all

lemma soft_bounds_of_literal:
  assumes "jointLimits ! i = \<lparr>s_min = - binary64 m, s_max = binary64 m, s_margin = binary64 0.05\<rparr>"
    and "binary64 (binary64 m - binary64 0.05) = v"
  shows "safeMax (jointLimits ! i) = v" and "safeMin (jointLimits ! i) = - v"
proof -
  show "safeMax (jointLimits ! i) = v"
    unfolding assms(1) safeMax_def using assms(2) by simp
  have "binary64 (- binary64 m + binary64 0.05) = - binary64 (binary64 m - binary64 0.05)"
    using binary64_minus[of "binary64 m - binary64 0.05"] by simp
  then show "safeMin (jointLimits ! i) = - v"
    unfolding assms(1) safeMin_def using assms(2) by simp
qed

text \<open>The soft bounds of the six joints, as the code holds them.\<close>

lemma safeMax_values:
  shows "safeMax (jointLimits ! 0) = 6575255455960925 / 2 ^ 51"
    and "safeMax (jointLimits ! 1) = 4998995586381251 / 2 ^ 51"
    and "safeMax (jointLimits ! 2) = 6575255455960925 / 2 ^ 51"
    and "safeMax (jointLimits ! 3) = 6755399441055744 / 2 ^ 51"
    and "safeMax (jointLimits ! 4) = 4998995586381251 / 2 ^ 51"
    and "safeMax (jointLimits ! 5) = 7014356419629548 / 2 ^ 50"
  using soft_bounds_of_literal(1)[OF _ soft_297, of 0]
    soft_bounds_of_literal(1)[OF _ soft_227, of 1]
    soft_bounds_of_literal(1)[OF _ soft_297, of 2]
    soft_bounds_of_literal(1)[OF _ soft_305, of 3]
    soft_bounds_of_literal(1)[OF _ soft_227, of 4]
    soft_bounds_of_literal(1)[OF _ soft_628, of 5]
  by (simp_all add: jointLimits_def)

lemma safeMin_values:
  shows "safeMin (jointLimits ! 0) = - (6575255455960925 / 2 ^ 51)"
    and "safeMin (jointLimits ! 1) = - (4998995586381251 / 2 ^ 51)"
    and "safeMin (jointLimits ! 2) = - (6575255455960925 / 2 ^ 51)"
    and "safeMin (jointLimits ! 3) = - (6755399441055744 / 2 ^ 51)"
    and "safeMin (jointLimits ! 4) = - (4998995586381251 / 2 ^ 51)"
    and "safeMin (jointLimits ! 5) = - (7014356419629548 / 2 ^ 50)"
  using soft_bounds_of_literal(2)[OF _ soft_297, of 0]
    soft_bounds_of_literal(2)[OF _ soft_227, of 1]
    soft_bounds_of_literal(2)[OF _ soft_297, of 2]
    soft_bounds_of_literal(2)[OF _ soft_305, of 3]
    soft_bounds_of_literal(2)[OF _ soft_227, of 4]
    soft_bounds_of_literal(2)[OF _ soft_628, of 5]
  by (simp_all add: jointLimits_def)

text \<open>
  Rounding moves each soft bound outwards: the band the code tests contains the band
  between the exact sum and the exact difference.
\<close>

lemma soft_band_contains:
  assumes "i < 6"
  shows "safeMin (jointLimits ! i) \<le> s_min (jointLimits ! i) + s_margin (jointLimits ! i)"
    and "s_max (jointLimits ! i) - s_margin (jointLimits ! i) \<le> safeMax (jointLimits ! i)"
proof -
  from assms consider "i = 0" | "i = 1" | "i = 2" | "i = 3" | "i = 4" | "i = 5"
    by linarith
  then show "safeMin (jointLimits ! i) \<le> s_min (jointLimits ! i) + s_margin (jointLimits ! i)"
    by cases (use safeMin_values in \<open>simp_all add: jointLimits_values\<close>)
  from assms consider "i = 0" | "i = 1" | "i = 2" | "i = 3" | "i = 4" | "i = 5"
    by linarith
  then show "s_max (jointLimits ! i) - s_margin (jointLimits ! i) \<le> safeMax (jointLimits ! i)"
    by cases (use safeMax_values in \<open>simp_all add: jointLimits_values\<close>)
qed

section \<open>Bounds on \<open>pi\<close>\<close>

text \<open>
  The singularity test and the conversion of degrees to radians need numeric bounds on
  \<open>pi\<close>.  They follow from Machin's formula and polynomial bounds on \<open>arctan\<close>, each
  obtained from the sign of a derivative.
\<close>

lemma arctan_le_self_nonneg:
  fixes x :: real
  assumes "0 \<le> x"
  shows "arctan x \<le> x"
proof -
  have "(\<lambda>t. t - arctan t) 0 \<le> (\<lambda>t. t - arctan t) x"
  proof (rule DERIV_nonneg_imp_nondecreasing[OF assms])
    fix t :: real
    have "DERIV (\<lambda>t. t - arctan t) t :> 1 - inverse (1 + t\<^sup>2)"
      by (auto intro!: derivative_eq_intros)
    moreover have "0 \<le> 1 - inverse (1 + t\<^sup>2)"
    proof -
      have "inverse (1 + t\<^sup>2) \<le> inverse 1" by (rule le_imp_inverse_le) auto
      then show ?thesis by simp
    qed
    ultimately show "\<exists>y. DERIV (\<lambda>t. t - arctan t) t :> y \<and> 0 \<le> y" by blast
  qed
  then show ?thesis by simp
qed

lemma arctan_ge_cubic:
  fixes x :: real
  assumes "0 \<le> x"
  shows "x - x ^ 3 / 3 \<le> arctan x"
proof -
  let ?f = "\<lambda>t::real. arctan t - (t - t ^ 3 / 3)"
  have "?f 0 \<le> ?f x"
  proof (rule DERIV_nonneg_imp_nondecreasing[OF assms])
    fix t :: real
    have "DERIV ?f t :> inverse (1 + t\<^sup>2) - (1 - t\<^sup>2)"
      by (auto intro!: derivative_eq_intros)
    moreover have "0 \<le> inverse (1 + t\<^sup>2) - (1 - t\<^sup>2)"
    proof -
      have "inverse (1 + t\<^sup>2) - (1 - t\<^sup>2) = t ^ 4 / (1 + t\<^sup>2)"
        by (simp add: field_simps power2_eq_square power4_eq_xxxx add_nonneg_eq_0_iff)
      also have "0 \<le> t ^ 4 / (1 + t\<^sup>2)" by (intro divide_nonneg_nonneg) auto
      finally show ?thesis by simp
    qed
    ultimately show "\<exists>y. DERIV ?f t :> y \<and> 0 \<le> y" by blast
  qed
  then show ?thesis by simp
qed

lemma arctan_le_quintic:
  fixes x :: real
  assumes "0 \<le> x"
  shows "arctan x \<le> x - x ^ 3 / 3 + x ^ 5 / 5"
proof -
  let ?f = "\<lambda>t::real. (t - t ^ 3 / 3 + t ^ 5 / 5) - arctan t"
  have "?f 0 \<le> ?f x"
  proof (rule DERIV_nonneg_imp_nondecreasing[OF assms])
    fix t :: real
    have "DERIV ?f t :> (1 - t\<^sup>2 + t ^ 4) - inverse (1 + t\<^sup>2)"
      by (auto intro!: derivative_eq_intros)
    moreover have "0 \<le> (1 - t\<^sup>2 + t ^ 4) - inverse (1 + t\<^sup>2)"
    proof -
      have "(1 - t\<^sup>2 + t ^ 4) - inverse (1 + t\<^sup>2) = t ^ 6 / (1 + t\<^sup>2)"
        by (simp add: field_simps power2_eq_square power4_eq_xxxx add_nonneg_eq_0_iff
            eval_nat_numeral)
      also have "0 \<le> t ^ 6 / (1 + t\<^sup>2)" by (intro divide_nonneg_nonneg) auto
      finally show ?thesis by simp
    qed
    ultimately show "\<exists>y. DERIV ?f t :> y \<and> 0 \<le> y" by blast
  qed
  then show ?thesis by simp
qed

lemma pi_lower: "3.14 < pi"
proof -
  have a: "(1/5::real) - (1/5) ^ 3 / 3 \<le> arctan (1/5)"
    by (rule arctan_ge_cubic) simp
  have b: "arctan (1/239) \<le> (1/239::real)"
    by (rule arctan_le_self_nonneg) simp
  have "pi = 16 * arctan (1/5) - 4 * arctan (1/239)"
    using machin by simp
  with a b show ?thesis by (simp add: eval_nat_numeral)
qed

lemma pi_upper: "pi < 3.142"
proof -
  have a: "arctan (1/5) \<le> (1/5::real) - (1/5) ^ 3 / 3 + (1/5) ^ 5 / 5"
    by (rule arctan_le_quintic) simp
  have b: "(1/239::real) - (1/239) ^ 3 / 3 \<le> arctan (1/239)"
    by (rule arctan_ge_cubic) simp
  have "pi = 16 * arctan (1/5) - 4 * arctan (1/239)"
    using machin by simp
  with a b show ?thesis by (simp add: eval_nat_numeral)
qed

section \<open>The motion control loop\<close>

text \<open>
  Claim C1.  From every controller state, \<^verbatim>\<open>emergencyStop()\<close> leaves the target
  joints equal to the current joints, slot by slot, leaves the current joints as they
  were, and clears the moving flag.  The function reads nothing of the supervisor; the
  same holds when the supervisor itself calls it through \<^verbatim>\<open>triggerEmergencyStop\<close>,
  whatever the supervisor's state.
\<close>

theorem emergencyStop_freezes_target:
  "targetJoints (emergencyStop c) = currentJoints (emergencyStop c)
   \<and> currentJoints (emergencyStop c) = currentJoints c
   \<and> \<not> isMoving (emergencyStop c)
   \<and> targetJoints (robotController (triggerEmergencyStop now reason m))
       = currentJoints (robotController m)
   \<and> \<not> isMoving (robotController (triggerEmergencyStop now reason m))"
  by (simp add: emergencyStop_def triggerEmergencyStop_def)

lemma rc_checkJointLimits_accepts:
  "i < 6 \<Longrightarrow> rc_checkJointLimits i a = Inr True \<longleftrightarrow>
     (\<exists>r. a = Some r \<and> lim_min (JOINT_LIMITS ! i) \<le> r \<and> r \<le> lim_max (JOINT_LIMITS ! i))"
  by (auto simp: rc_checkJointLimits_def jget_def JOINT_LIMITS_def split: option.splits)

lemma checkAllJoints_None:
  "checkAllJoints t is = None \<longleftrightarrow>
     (\<forall>i\<in>set is. rc_checkJointLimits i (jread t i) = Inr True)"
  by (induction "is") (auto split: sum.splits bool.splits)

lemma moveJoint_rejects:
  assumes "jointIndex < 6"
    and "angle < lim_min (JOINT_LIMITS ! jointIndex) \<or> angle > lim_max (JOINT_LIMITS ! jointIndex)"
  shows "moveJoint wait c jointIndex (Some angle) =
           (Some (JointLimitExceeded (jointIndex + 1) (Some angle)), c)"
  using assms rc_checkJointLimits_accepts[of jointIndex "Some angle"]
  by (auto simp: moveJoint_def rc_checkJointLimits_def jget_def JOINT_LIMITS_def
      split: sum.splits bool.splits option.splits)

lemma moveJoints_rejects:
  assumes "i < 6" and "jread targets i = Some a"
    and "a < lim_min (JOINT_LIMITS ! i) \<or> a > lim_max (JOINT_LIMITS ! i)"
  shows "\<exists>e. moveJoints wait c targets = (Some e, c)"
proof -
  have "rc_checkJointLimits i (jread targets i) \<noteq> Inr True"
    using assms rc_checkJointLimits_accepts[of i "Some a"] by auto
  then have "checkAllJoints targets [0..<6] \<noteq> None"
    using assms(1) by (auto simp: checkAllJoints_None)
  then show ?thesis by (auto simp: moveJoints_def split: option.splits)
qed

text \<open>
  Claim C3.  A \<^verbatim>\<open>moveJoint\<close> whose angle lies outside the hard limits of its joint, and
  a \<^verbatim>\<open>moveJoints\<close> one of whose six targets lies outside the hard limits of its joint,
  end in an error, and the controller after the call is the controller before it: target
  joints, current joints and the moving flag included.  The error is raised before the
  first \<^verbatim>\<open>await\<close>, so nothing the timers do (\<open>wait\<close>) comes in between.
\<close>

theorem move_rejected_without_mutation:
  assumes "i < 6"
    and "a < lim_min (JOINT_LIMITS ! i) \<or> a > lim_max (JOINT_LIMITS ! i)"
  shows "moveJoint wait c i (Some a) = (Some (JointLimitExceeded (i + 1) (Some a)), c)
         \<and> (\<forall>targets. jread targets i = Some a \<longrightarrow>
               (\<exists>e. moveJoints wait c targets = (Some e, c)))"
  using assms moveJoint_rejects moveJoints_rejects by blast

theorem move_rejected_without_mutation_witness:
  "(0::nat) < 6 \<and> (3::real) > lim_max (JOINT_LIMITS ! 0)
   \<and> moveJoint id initialController 0 (Some 3)
       = (Some (JointLimitExceeded 1 (Some 3)), initialController)
   \<and> (\<exists>e. moveJoints id initialController [Some 3, Some 0, Some 0, Some 0, Some 0, Some 0]
            = (Some e, initialController))"
proof -
  have h: "(3::real) < lim_min (JOINT_LIMITS ! 0) \<or> 3 > lim_max (JOINT_LIMITS ! 0)"
    by (simp add: JOINT_LIMITS_values)
  have r: "jread [Some 3, Some 0, Some 0, Some 0, Some 0, Some (0::real)] 0 = Some 3"
    by (simp add: jread_def)
  show ?thesis
    using move_rejected_without_mutation[of 0 3 id initialController, OF _ h] r
    by (simp add: JOINT_LIMITS_values)
qed

section \<open>The safety supervisor\<close>

lemma jointViolation_outside:
  assumes "jread joints i = Some v"
    and "v < safeMin (jointLimits ! i) \<or> v > safeMax (jointLimits ! i)"
  shows "\<exists>viol. jointViolation joints i = [viol] \<and> v_joint viol = i + 1 \<and> v_value viol = v"
  using assms by (auto simp: jointViolation_def Let_def)

lemma violations_member:
  assumes "i < 6" and "jread joints i = Some v"
    and "v < safeMin (jointLimits ! i) \<or> v > safeMax (jointLimits ! i)"
  shows "\<exists>viol \<in> set (concat (map (jointViolation joints) [0..<6])).
            v_joint viol = i + 1 \<and> v_value viol = v"
proof -
  obtain viol where v: "jointViolation joints i = [viol]" "v_joint viol = i + 1"
      "v_value viol = v"
    using jointViolation_outside[OF assms(2,3)] by blast
  have "viol \<in> set (jointViolation joints i)" using v(1) by simp
  moreover have "i \<in> set [0..<6]" using assms(1) by simp
  ultimately have "viol \<in> set (concat (map (jointViolation joints) [0..<6]))"
    unfolding set_concat set_map by blast
  with v show ?thesis by blast
qed

lemma sm_checkJointLimits_violation:
  assumes "concat (map (jointViolation joints) [0..<6]) = vs" and "vs \<noteq> []"
  shows "sm_checkJointLimits now m joints =
    (False,
     m\<lparr>status := (status m)\<lparr>limitViolations := vs\<rparr>,
       safetyLog := safetyLog m @ [''Joint limit violations'',
                      ''Protective stop triggered: Joint limit violation''],
       robotController :=
         (robotController m)\<lparr>targetJoints := currentJoints (robotController m)\<rparr>,
       emitted := emitted m @ [ProtectiveStopEvent ''Joint limit violation'' now,
                     WarningJointLimit vs]\<rparr>)"
  unfolding sm_checkJointLimits_def assms(1) Let_def triggerProtectiveStop_def
  using assms(2) by simp

text \<open>
  Claim C2.  Let \<open>joints\<close> be a six-element joint vector and \<open>v\<close> its value for joint
  \<open>i\<close>, outside the soft band \<open>[min + margin, max - margin]\<close> of that joint, whose
  ends \<open>safeMin\<close> and \<open>safeMax\<close> are the sum and the difference as the code computes
  them in double precision.  Then
  \<^verbatim>\<open>checkJointLimits(joints)\<close> returns false and \<^verbatim>\<open>limitViolations\<close> holds an
  entry for joint \<open>i + 1\<close> with value \<open>v\<close>.  The protective stop changes one thing in
  the controller: the target joints become the current joints (the moving flag, the
  current joints and the list of bus writes stay as they were, so no stop command goes to
  the drives).  The reason is logged and emitted, and the emergency-stop flag is
  untouched.
\<close>

theorem soft_band_violation_protective_stop:
  assumes "length joints = 6"
    and "i < 6" and "joints ! i = Some v"
    and "v < safeMin (jointLimits ! i) \<or> v > safeMax (jointLimits ! i)"
  shows "\<not> fst (sm_checkJointLimits now m joints)
    \<and> (\<exists>viol \<in> set (limitViolations (status (snd (sm_checkJointLimits now m joints)))).
          v_joint viol = i + 1 \<and> v_value viol = v)
    \<and> robotController (snd (sm_checkJointLimits now m joints))
        = (robotController m)\<lparr>targetJoints := currentJoints (robotController m)\<rparr>
    \<and> ProtectiveStopEvent ''Joint limit violation'' now
         \<in> set (emitted (snd (sm_checkJointLimits now m joints)))
    \<and> ''Protective stop triggered: Joint limit violation''
         \<in> set (safetyLog (snd (sm_checkJointLimits now m joints)))
    \<and> emergencyStopped (status (snd (sm_checkJointLimits now m joints)))
        = emergencyStopped (status m)"
proof -
  have r: "jread joints i = Some v"
    using assms by (simp add: jread_def)
  have mem: "\<exists>viol \<in> set (concat (map (jointViolation joints) [0..<6])).
            v_joint viol = i + 1 \<and> v_value viol = v"
    by (rule violations_member[OF assms(2) r assms(4)])
  then have ne: "concat (map (jointViolation joints) [0..<6]) \<noteq> []"
    by fastforce
  show ?thesis
    unfolding sm_checkJointLimits_violation[OF refl ne] using mem by simp
qed

theorem soft_band_violation_protective_stop_witness:
  "length [Some 2.95, Some 0, Some 0, Some 0, Some 0, Some (0::real)] = 6
   \<and> (2.95::real) > safeMax (jointLimits ! 0)
   \<and> \<not> fst (sm_checkJointLimits 7 (initialMonitor initialController 0)
               [Some 2.95, Some 0, Some 0, Some 0, Some 0, Some 0])
   \<and> robotController (snd (sm_checkJointLimits 7 (initialMonitor initialController 0)
               [Some 2.95, Some 0, Some 0, Some 0, Some 0, Some 0]))
       = initialController\<lparr>targetJoints := currentJoints initialController\<rparr>
   \<and> ProtectiveStopEvent ''Joint limit violation'' 7
         \<in> set (emitted (snd (sm_checkJointLimits 7 (initialMonitor initialController 0)
               [Some 2.95, Some 0, Some 0, Some 0, Some 0, Some 0])))"
proof -
  have g: "(2.95::real) > safeMax (jointLimits ! 0)"
    by (simp add: safeMax_values)
  then have h: "(2.95::real) < safeMin (jointLimits ! 0) \<or> 2.95 > safeMax (jointLimits ! 0)"
    by simp
  have r: "robotController (initialMonitor initialController 0) = initialController"
    by (simp add: initialMonitor_def)
  show ?thesis
    using soft_band_violation_protective_stop[of
        "[Some 2.95, Some 0, Some 0, Some 0, Some 0, Some 0]" 0 "2.95" 7
        "initialMonitor initialController 0", OF _ _ _ h] g
    by (simp add: r)
qed

lemma no_violation_inside:
  assumes "\<forall>i<6. \<exists>v. jread joints i = Some v
              \<and> s_min (jointLimits ! i) + s_margin (jointLimits ! i) \<le> v
              \<and> v \<le> s_max (jointLimits ! i) - s_margin (jointLimits ! i)"
  shows "concat (map (jointViolation joints) [0..<6]) = []"
proof -
  have "jointViolation joints i = []" if i: "i < 6" for i
  proof -
    obtain v where v: "jread joints i = Some v"
      and lo: "s_min (jointLimits ! i) + s_margin (jointLimits ! i) \<le> v"
      and hi: "v \<le> s_max (jointLimits ! i) - s_margin (jointLimits ! i)"
      using assms i by blast
    have "safeMin (jointLimits ! i) \<le> v" and "v \<le> safeMax (jointLimits ! i)"
      using soft_band_contains[OF i] lo hi by linarith+
    then show ?thesis
      by (simp add: jointViolation_def Let_def v)
  qed
  then show ?thesis by simp
qed

lemma sm_checkJointLimits_inside:
  assumes "concat (map (jointViolation joints) [0..<6]) = []"
  shows "sm_checkJointLimits now m joints = (True, m)"
  unfolding sm_checkJointLimits_def assms Let_def by simp

text \<open>
  A joint that sits on the upper soft bound the code holds (for joint 1 the double
  \<^verbatim>\<open>2.9200000000000004\<close>) is inside the band: nothing is reported.
\<close>

lemma soft_band_edge_inside:
  "safeMax (jointLimits ! 0) = 6575255455960925 / 2 ^ 51"
  "sm_checkJointLimits now m
     [Some (6575255455960925 / 2 ^ 51), Some 0, Some 0, Some 0, Some 0, Some 0] = (True, m)"
proof -
  let ?js = "[Some (6575255455960925 / 2 ^ 51), Some 0, Some 0, Some 0, Some 0, Some (0::real)]"
  show "safeMax (jointLimits ! 0) = 6575255455960925 / 2 ^ 51"
    by (rule safeMax_values(1))
  have "jointViolation ?js i = []" if "i < 6" for i
  proof -
    from that consider "i = 0" | "i = 1" | "i = 2" | "i = 3" | "i = 4" | "i = 5"
      by linarith
    then show ?thesis
      by cases
        (use safeMin_values safeMax_values in \<open>simp_all add: jointViolation_def jread_def\<close>)
  qed
  then have "concat (map (jointViolation ?js) [0..<6]) = []"
    by simp
  then show "sm_checkJointLimits now m ?js = (True, m)"
    by (rule sm_checkJointLimits_inside)
qed

lemma checkWorkspaceLimits_inside:
  assumes "ax_min workspace_x \<le> ee_x p" "ee_x p \<le> ax_max workspace_x"
    "ax_min workspace_y \<le> ee_y p" "ee_y p \<le> ax_max workspace_y"
    "ax_min workspace_z \<le> ee_z p" "ee_z p \<le> ax_max workspace_z"
  shows "checkWorkspaceLimits now m p = (True, m)"
  using assms by (simp add: checkWorkspaceLimits_def axisViolations_def)

lemma checkCollision_fst: "fst (checkCollision rnd now m) \<longleftrightarrow> rnd > 0.5"
  by (simp add: checkCollision_def Let_def)

lemma checkCollision_hit:
  assumes "rnd > 0.5"
  shows "checkCollision rnd now m =
    (True,
     m\<lparr>status := (status m)\<lparr>collisionDetected := True, emergencyStopped := True\<rparr>,
       safetyLog := safetyLog m @ [''Collision detected!'',
                      ''Emergency stop triggered: Collision detected''],
       robotController := emergencyStop (robotController m),
       emitted := emitted m @ [EmergencyStopEvent ''Collision detected'' now,
                     CollisionEvent now ''high'']\<rparr>)"
  using assms by (simp add: checkCollision_def Let_def triggerEmergencyStop_def)

lemma checkCollision_miss:
  assumes "rnd \<le> 0.5"
  shows "checkCollision rnd now m = (False, m)"
  using assms by (simp add: checkCollision_def Let_def)

lemma performSafetyCheck_quiet:
  assumes "isActive (status m)"
    and "concat (map (jointViolation (currentJoints (robotController m))) [0..<6]) = []"
    and "checkWorkspaceLimits now m (endEffectorPose (robotController m)) = (True, m)"
  shows "performSafetyCheck rnd now m =
           (snd (checkCollision rnd now m))
             \<lparr>status := (status (snd (checkCollision rnd now m)))\<lparr>lastCheckTime := now\<rparr>\<rparr>"
  using assms sm_checkJointLimits_inside[OF assms(2)]
  by (simp add: performSafetyCheck_def Let_def getCurrentJoints_def getEndEffectorPose_def)

text \<open>
  Claim C6.  The result of \<^verbatim>\<open>checkCollision\<close> is a function of the random draw
  alone: for the same draw it is the same in any two supervisor states and at any two
  times.  From a supervisor that is active, with all six current joints inside their soft
  bands and the end effector inside the workspace box, two runs of
  \<^verbatim>\<open>performSafetyCheck\<close> with different draws end in different states, and there is a
  draw in \<open>[0, 1)\<close> for which \<^verbatim>\<open>checkCollision\<close> returns true, the collision and
  emergency-stop flags are set, the controller is emergency-stopped and the emergency
  stop is emitted; no input of the model carries a collision signal.
\<close>

theorem collision_check_random:
  assumes "isActive (status m)"
    and "\<forall>i<6. \<exists>v. jread (currentJoints (robotController m)) i = Some v
              \<and> s_min (jointLimits ! i) + s_margin (jointLimits ! i) \<le> v
              \<and> v \<le> s_max (jointLimits ! i) - s_margin (jointLimits ! i)"
    and "ax_min workspace_x \<le> ee_x (endEffectorPose (robotController m))
         \<and> ee_x (endEffectorPose (robotController m)) \<le> ax_max workspace_x"
    and "ax_min workspace_y \<le> ee_y (endEffectorPose (robotController m))
         \<and> ee_y (endEffectorPose (robotController m)) \<le> ax_max workspace_y"
    and "ax_min workspace_z \<le> ee_z (endEffectorPose (robotController m))
         \<and> ee_z (endEffectorPose (robotController m)) \<le> ax_max workspace_z"
  shows "(\<forall>r m1 m2 t1 t2. fst (checkCollision r t1 m1) = fst (checkCollision r t2 m2))
    \<and> (\<exists>r1 r2. 0 \<le> r1 \<and> r1 < 1 \<and> 0 \<le> r2 \<and> r2 < 1
          \<and> performSafetyCheck r1 now m \<noteq> performSafetyCheck r2 now m)
    \<and> (\<exists>r. 0 \<le> r \<and> r < 1 \<and> fst (checkCollision r now m)
          \<and> collisionDetected (status (performSafetyCheck r now m))
          \<and> emergencyStopped (status (performSafetyCheck r now m))
          \<and> robotController (performSafetyCheck r now m) = emergencyStop (robotController m)
          \<and> EmergencyStopEvent ''Collision detected'' now
               \<in> set (emitted (performSafetyCheck r now m)))"
proof -
  have nv: "concat (map (jointViolation (currentJoints (robotController m))) [0..<6]) = []"
    by (rule no_violation_inside[OF assms(2)])
  have ws: "checkWorkspaceLimits now m (endEffectorPose (robotController m)) = (True, m)"
    using assms(3-5) by (intro checkWorkspaceLimits_inside) auto
  note psc = performSafetyCheck_quiet[OF assms(1) nv ws]
  have hit: "(3/4::real) > 0.5" by simp
  have miss: "(0::real) \<le> 0.5" by simp
  have A: "\<forall>r m1 m2 t1 t2. fst (checkCollision r t1 m1) = fst (checkCollision r t2 m2)"
    by (simp add: checkCollision_fst)
  have "length (emitted (performSafetyCheck (3/4) now m))
          \<noteq> length (emitted (performSafetyCheck 0 now m))"
    unfolding psc checkCollision_hit[OF hit] checkCollision_miss[OF miss] by simp
  then have "performSafetyCheck 0 now m \<noteq> performSafetyCheck (3/4) now m"
    by auto
  then have B: "\<exists>r1 r2. 0 \<le> r1 \<and> r1 < 1 \<and> 0 \<le> r2 \<and> r2 < 1
          \<and> performSafetyCheck r1 now m \<noteq> performSafetyCheck r2 now m"
    by (intro exI[of _ 0] exI[of _ "3/4"]) simp
  have C: "\<exists>r. 0 \<le> r \<and> r < 1 \<and> fst (checkCollision r now m)
          \<and> collisionDetected (status (performSafetyCheck r now m))
          \<and> emergencyStopped (status (performSafetyCheck r now m))
          \<and> robotController (performSafetyCheck r now m) = emergencyStop (robotController m)
          \<and> EmergencyStopEvent ''Collision detected'' now
               \<in> set (emitted (performSafetyCheck r now m))"
    apply (rule exI[of _ "3/4"])
    unfolding psc checkCollision_hit[OF hit]
    by simp
  from A B C show ?thesis by blast
qed

theorem collision_check_random_witness:
  "isActive (status (initialMonitor initialController 0))
   \<and> (\<exists>r1 r2. 0 \<le> r1 \<and> r1 < 1 \<and> 0 \<le> r2 \<and> r2 < 1
          \<and> performSafetyCheck r1 50 (initialMonitor initialController 0)
              \<noteq> performSafetyCheck r2 50 (initialMonitor initialController 0))
   \<and> (\<exists>r. 0 \<le> r \<and> r < 1
          \<and> emergencyStopped (status (performSafetyCheck r 50 (initialMonitor initialController 0)))
          \<and> robotController (performSafetyCheck r 50 (initialMonitor initialController 0)) = emergencyStop initialController)"
proof -
  let ?m = "initialMonitor initialController 0"
  have r: "robotController ?m = initialController"
    by (simp add: initialMonitor_def)
  have a: "isActive (status ?m)" by (simp add: initialMonitor_def)
  have j: "\<forall>i<6. \<exists>v. jread (currentJoints (robotController ?m)) i = Some v
              \<and> s_min (jointLimits ! i) + s_margin (jointLimits ! i) \<le> v
              \<and> v \<le> s_max (jointLimits ! i) - s_margin (jointLimits ! i)"
  proof (intro allI impI)
    fix i :: nat assume "i < 6"
    then consider "i = 0" | "i = 1" | "i = 2" | "i = 3" | "i = 4" | "i = 5" by linarith
    then show "\<exists>v. jread (currentJoints (robotController ?m)) i = Some v
              \<and> s_min (jointLimits ! i) + s_margin (jointLimits ! i) \<le> v
              \<and> v \<le> s_max (jointLimits ! i) - s_margin (jointLimits ! i)"
      by cases (simp_all add: initialMonitor_def initialController_def jread_def jointLimits_values)
  qed
  have x: "ax_min workspace_x \<le> ee_x (endEffectorPose (robotController ?m))
         \<and> ee_x (endEffectorPose (robotController ?m)) \<le> ax_max workspace_x"
    by (simp add: initialMonitor_def initialController_def workspace_x_def)
  have y: "ax_min workspace_y \<le> ee_y (endEffectorPose (robotController ?m))
         \<and> ee_y (endEffectorPose (robotController ?m)) \<le> ax_max workspace_y"
    by (simp add: initialMonitor_def initialController_def workspace_y_def)
  have z: "ax_min workspace_z \<le> ee_z (endEffectorPose (robotController ?m))
         \<and> ee_z (endEffectorPose (robotController ?m)) \<le> ax_max workspace_z"
    by (simp add: initialMonitor_def initialController_def workspace_z_def)
  from collision_check_random[OF a j x y z, of 50] a r show ?thesis
    by (simp only:) blast
qed

lemma speedRatioStep_min:
  assumes "jread target i = Some t" and "r \<le> 1"
  shows "speedRatioStep target r i = min r (min 1 (limitDistance t i / 0.5))"
  using assms by (auto simp: speedRatioStep_def Let_def limitDistance_def min_def)

lemma Min_insert_min:
  fixes r a :: real
  assumes "finite G"
  shows "Min (insert (min r a) G) = Min (insert r (insert a G))"
proof (cases "G = {}")
  case True
  then show ?thesis by simp
next
  case False
  have "Min (insert (min r a) G) = min (min r a) (Min G)"
    using assms False by (rule Min_insert)
  moreover have "Min (insert a G) = min a (Min G)"
    using assms False by (rule Min_insert)
  moreover have "Min (insert r (insert a G)) = min r (Min (insert a G))"
    using assms by (intro Min_insert) simp_all
  ultimately show ?thesis by (simp only: min.assoc)
qed

lemma foldl_speedRatioStep:
  assumes "\<forall>i\<in>set is. jread target i = Some (ts ! i)" and "r \<le> 1"
  shows "foldl (speedRatioStep target) r is
         = Min (insert r ((\<lambda>i. min 1 (limitDistance (ts ! i) i / 0.5)) ` set is))"
  using assms
proof (induction "is" arbitrary: r)
  case Nil
  then show ?case by simp
next
  case (Cons i "is")
  define g where "g = (\<lambda>i. min 1 (limitDistance (ts ! i) i / 0.5))"
  have step: "speedRatioStep target r i = min r (g i)"
    unfolding g_def using Cons.prems by (intro speedRatioStep_min) simp_all
  have le: "min r (g i) \<le> 1" using Cons.prems(2) by simp
  have rd: "\<forall>i\<in>set is. jread target i = Some (ts ! i)" using Cons.prems(1) by simp
  have "foldl (speedRatioStep target) r (i # is) = foldl (speedRatioStep target) (min r (g i)) is"
    by (simp only: foldl_Cons step)
  also have "\<dots> = Min (insert (min r (g i)) (g ` set is))"
    unfolding g_def by (rule Cons.IH[OF rd le[unfolded g_def]])
  also have "\<dots> = Min (insert r (insert (g i) (g ` set is)))"
    by (rule Min_insert_min) simp
  also have "insert (g i) (g ` set is) = g ` set (i # is)" by simp
  finally show ?case unfolding g_def .
qed

text \<open>
  Claim C8.  For a target vector of six numbers \<open>ts\<close>, any current vector and any desired
  speed, \<^verbatim>\<open>calculateSafeSpeed\<close> returns the desired speed times the least, over the
  six joints, of \<open>min 1 (d\<^sub>i / 0.5)\<close>, where \<open>d\<^sub>i\<close> is the distance from the target of
  joint \<open>i\<close> to the nearer hard limit of that joint.  When some target sits exactly on
  one of its hard limits the result is zero.
\<close>

theorem calculateSafeSpeed_formula:
  assumes "length ts = 6"
  shows "calculateSafeSpeed (map Some ts) current desiredSpeed
           = desiredSpeed * Min ((\<lambda>i. min 1 (limitDistance (ts ! i) i / 0.5)) ` {0..<6})
       \<and> ((\<exists>i<6. ts ! i = s_min (jointLimits ! i) \<or> ts ! i = s_max (jointLimits ! i))
             \<longrightarrow> calculateSafeSpeed (map Some ts) current desiredSpeed = 0)"
proof -
  let ?g = "\<lambda>i. min 1 (limitDistance (ts ! i) i / 0.5)"
  have rd: "\<forall>i\<in>set [0..<6]. jread (map Some ts) i = Some (ts ! i)"
    using assms by (simp add: jread_def)
  have "foldl (speedRatioStep (map Some ts)) 1 [0..<6] = Min (insert 1 (?g ` set [0..<6]))"
    by (rule foldl_speedRatioStep[OF rd]) simp
  also have "\<dots> = Min (?g ` {0..<6})"
  proof -
    have "Min (insert 1 (?g ` {0..<6})) = min 1 (Min (?g ` {0..<6}))"
      by (rule Min_insert) auto
    moreover have "Min (?g ` {0..<6}) \<le> 1"
    proof -
      have "Min (?g ` {0..<6}) \<le> ?g 0" by (rule Min_le) auto
      also have "\<dots> \<le> 1" by simp
      finally show ?thesis .
    qed
    ultimately show ?thesis by simp
  qed
  finally have F: "foldl (speedRatioStep (map Some ts)) 1 [0..<6] = Min (?g ` {0..<6})" .
  have main: "calculateSafeSpeed (map Some ts) current desiredSpeed = desiredSpeed * Min (?g ` {0..<6})"
    by (simp add: calculateSafeSpeed_def F)
  have zero: "Min (?g ` {0..<6}) = 0"
    if "i < 6" "ts ! i = s_min (jointLimits ! i) \<or> ts ! i = s_max (jointLimits ! i)" for i
  proof (rule antisym)
    have "?g i = 0" using that(2) by (auto simp: limitDistance_def)
    moreover have "Min (?g ` {0..<6}) \<le> ?g i" using that(1) by (intro Min_le) auto
    ultimately show "Min (?g ` {0..<6}) \<le> 0" by simp
    show "0 \<le> Min (?g ` {0..<6})"
      by (subst Min_ge_iff) (auto simp: limitDistance_def)
  qed
  show ?thesis using main zero by auto
qed

theorem calculateSafeSpeed_formula_witness:
  "length [binary64 2.97, 0, 0, 0, 0, 0::real] = 6
   \<and> [binary64 2.97, 0, 0, 0, 0, 0::real] ! 0 = s_max (jointLimits ! 0)
   \<and> calculateSafeSpeed (map Some [binary64 2.97, 0, 0, 0, 0, 0]) [] 80 = 0"
proof -
  have m: "[binary64 2.97, 0, 0, 0, 0, 0::real] ! 0 = s_max (jointLimits ! 0)"
    by (simp add: jointLimits_def)
  then have h: "\<exists>i<6. [binary64 2.97, 0, 0, 0, 0, 0::real] ! i = s_min (jointLimits ! i)
            \<or> [binary64 2.97, 0, 0, 0, 0, 0::real] ! i = s_max (jointLimits ! i)"
    by (intro exI[of _ 0]) simp
  show ?thesis
    using calculateSafeSpeed_formula[of "[binary64 2.97, 0, 0, 0, 0, 0]" "[]" 80] h m
    by simp
qed

lemma wrist_band:
  assumes "jread target 4 = Some j5" and "\<bar>\<bar>j5\<bar> - pi / 2\<bar> < 0.1"
  shows "isNearSingularity target" and "\<not> isTargetSafe target"
  using assms by (auto simp: isNearSingularity_def isTargetSafe_def)

text \<open>
  Claim C5.  For a vector \<open>ts\<close> of six numbers, all inside their hard limits, whose joint
  5 has a magnitude less than \<open>0.1\<close> rad away from \<open>pi / 2\<close>, \<^verbatim>\<open>isTargetSafe\<close>
  returns false: the singularity test rejects the target.  The band is the open one the
  code tests, \<open>\<bar>\<bar>j5\<bar> - pi / 2\<bar> < 0.1\<close>.  The instance of the claim, joint 5 at
  \<open>1.5708\<close> and the other joints at \<open>1.0\<close>, is the witness below.
\<close>

theorem isTargetSafe_rejects_wrist_singularity:
  assumes "length ts = 6"
    and "\<forall>i<6. s_min (jointLimits ! i) \<le> ts ! i \<and> ts ! i \<le> s_max (jointLimits ! i)"
    and "\<bar>\<bar>ts ! 4\<bar> - pi / 2\<bar> < 0.1"
  shows "isTargetSafe (map Some ts) = False"
proof -
  have "jread (map Some ts) 4 = Some (ts ! 4)"
    using assms(1) by (simp add: jread_def)
  then have "\<not> isTargetSafe (map Some ts)"
    using assms(3) by (rule wrist_band(2))
  then show ?thesis by simp
qed

theorem isTargetSafe_rejects_wrist_singularity_witness:
  "length [1, 1, 1, 1, 1.5708, 1::real] = 6
   \<and> s_min (jointLimits ! 0) \<le> 1 \<and> 1 \<le> s_max (jointLimits ! 0)
   \<and> s_min (jointLimits ! 1) \<le> 1 \<and> 1 \<le> s_max (jointLimits ! 1)
   \<and> s_min (jointLimits ! 2) \<le> 1 \<and> 1 \<le> s_max (jointLimits ! 2)
   \<and> s_min (jointLimits ! 3) \<le> 1 \<and> 1 \<le> s_max (jointLimits ! 3)
   \<and> s_min (jointLimits ! 4) \<le> 1.5708 \<and> 1.5708 \<le> s_max (jointLimits ! 4)
   \<and> s_min (jointLimits ! 5) \<le> 1 \<and> 1 \<le> s_max (jointLimits ! 5)
   \<and> \<bar>\<bar>1.5708::real\<bar> - pi / 2\<bar> < 0.1
   \<and> isTargetSafe [Some 1, Some 1, Some 1, Some 1, Some 1.5708, Some 1] = False"
proof -
  let ?ts = "[1, 1, 1, 1, 1.5708, 1::real]"
  have lim: "\<forall>i<6. s_min (jointLimits ! i) \<le> ?ts ! i \<and> ?ts ! i \<le> s_max (jointLimits ! i)"
  proof (intro allI impI)
    fix i :: nat
    assume "i < 6"
    then consider "i = 0" | "i = 1" | "i = 2" | "i = 3" | "i = 4" | "i = 5"
      by linarith
    then show "s_min (jointLimits ! i) \<le> ?ts ! i \<and> ?ts ! i \<le> s_max (jointLimits ! i)"
      by cases (simp_all add: jointLimits_values)
  qed
  have band: "\<bar>\<bar>1.5708::real\<bar> - pi / 2\<bar> < 0.1"
    using pi_lower pi_upper by (simp add: abs_if)
  have band': "\<bar>\<bar>?ts ! 4\<bar> - pi / 2\<bar> < 0.1"
    using band by simp
  have "isTargetSafe (map Some ?ts) = False"
    by (rule isTargetSafe_rejects_wrist_singularity[OF _ lim band']) simp
  with band show ?thesis by (simp add: jointLimits_values)
qed

section \<open>Determinants, inverses and angles\<close>

lemma upt6: "[0..<6] = [0,1,2,3,4,5]" by (simp add: upt_rec)
lemma upt5: "[0..<5] = [0,1,2,3,4]" by (simp add: upt_rec)
lemma upt4: "[0..<4] = [0,1,2,3]" by (simp add: upt_rec)
lemma upt3: "[0..<3] = [0,1,2]" by (simp add: upt_rec)
lemma upt2: "[0..<2] = [0,1]" by (simp add: upt_rec)
lemma upt1: "[0..<1] = [0]" by (simp add: upt_rec)

lemma dropAt_0: "dropAt 0 (x # xs) = xs" by (simp add: dropAt_def)
lemma dropAt_Suc: "dropAt (Suc n) (x # xs) = x # dropAt n xs" by (simp add: dropAt_def)

lemma det1: "math_det [[a]] = a" by (simp add: upt1)
lemma det2: "math_det [[a,b],[c,d]] = a*d - b*c" 
  by (simp add: upt2 dropAt_0 dropAt_Suc det1)
lemma det3: "math_det [[a,b,c],[d,e,f],[g,h,i]] = a*(e*i - f*h) - b*(d*i - f*g) + c*(d*h - e*g)"
  by (simp add: upt3 dropAt_0 dropAt_Suc det2 eval_nat_numeral)

lemma det_lead6: "math_det ([a,0,0,0,0,0] # rs) = a * math_det (map (dropAt 0) rs)"
  by (simp add: upt6)
lemma det_lead5: "math_det ([a,0,0,0,0] # rs) = a * math_det (map (dropAt 0) rs)"
  by (simp add: upt5)
lemma det_lead4: "math_det ([a,0,0,0] # rs) = a * math_det (map (dropAt 0) rs)"
  by (simp add: upt4)

lemma det4_affine:
  "math_det [[a,b,c,p],[d,e,f,q],[g,h,i,r],[0,0,0,1]]
     = a*(e*i - f*h) - b*(d*i - f*g) + c*(d*h - e*g)"
  by (subst math_det.simps)
     (simp add: upt4 dropAt_0 dropAt_Suc det3 eval_nat_numeral algebra_simps del: math_det.simps)

lemma mult4:
  "math_multiply [[a11,a12,a13,a14],[a21,a22,a23,a24],[a31,a32,a33,a34],[0,0,0,1]]
                 [[b11,b12,b13,b14],[b21,b22,b23,b24],[b31,b32,b33,b34],[0,0,0,1]]
   = [[a11*b11 + a12*b21 + a13*b31, a11*b12 + a12*b22 + a13*b32, a11*b13 + a12*b23 + a13*b33, a11*b14 + a12*b24 + a13*b34 + a14],
      [a21*b11 + a22*b21 + a23*b31, a21*b12 + a22*b22 + a23*b32, a21*b13 + a22*b23 + a23*b33, a21*b14 + a22*b24 + a23*b34 + a24],
      [a31*b11 + a32*b21 + a33*b31, a31*b12 + a32*b22 + a33*b32, a31*b13 + a32*b23 + a33*b33, a31*b14 + a32*b24 + a33*b34 + a34],
      [0,0,0,1]]"
  by (simp add: math_multiply_def ncols_def mget_def upt4)

lemma dh_shape:
  "buildDHMatrix a alpha d theta =
     [[cos theta, - sin theta, 0, a],
      [sin theta * cos alpha, cos theta * cos alpha, - sin alpha, - d * sin alpha],
      [sin theta * sin alpha, cos theta * sin alpha, cos alpha, d * cos alpha],
      [0, 0, 0, 1]]"
  by (simp add: buildDHMatrix_def Let_def)

lemma id4: "math_identity 4 = [[1,0,0,0],[0,1,0,0],[0,0,1,0],[0,0,0,1]]"
  by (simp add: math_identity_def upt4)

lemma firstThreeTransform_affine:
  "\<exists>a b c p d e f q g h i r.
     firstThreeTransform t1 t2 t3 = [[a,b,c,p],[d,e,f,q],[g,h,i,r],[0,0,0,1]]
     \<and> a*(e*i - f*h) - b*(d*i - f*g) + c*(d*h - e*g) = 1"
proof -
  have c1: "(cos t1)\<^sup>2 + (sin t1)\<^sup>2 = 1" and c2: "(cos t2)\<^sup>2 + (sin t2)\<^sup>2 = 1"
    and c3: "(cos t3)\<^sup>2 + (sin t3)\<^sup>2 = 1" by simp_all
  have al: "cos (- pi / 2) = 0" "sin (- pi / 2) = - 1"
    using cos_minus[of "pi/2"] sin_minus[of "pi/2"] by simp_all
  define d1 a2 d3 where "d1 = binary64 0.267" and "a2 = binary64 0.290" and "d3 = binary64 0.342"
  define C1 S1 C2 S2 C3 S3 where "C1 = cos t1" and "S1 = sin t1" and "C2 = cos t2" and "S2 = sin t2"
    and "C3 = cos t3" and "S3 = sin t3"
  have T: "firstThreeTransform t1 t2 t3 = 
    math_multiply (math_multiply (math_multiply [[1,0,0,0],[0,1,0,0],[0,0,1,0],[0,0,0,1]]
       [[C1, - S1, 0, 0], [S1, C1, 0, 0], [0, 0, 1, d1], [0,0,0,1]])
       [[C2, - S2, 0, a2], [0, 0, 1, 0], [- S2, - C2, 0, 0], [0,0,0,1]])
       [[C3, - S3, 0, 0], [0, 0, - 1, - d3], [S3, C3, 0, 0], [0,0,0,1]]"
    unfolding firstThreeTransform_def upt3 C1_def S1_def C2_def S2_def C3_def S3_def
      d1_def a2_def d3_def
    by (simp add: id4 dh_shape DH_PARAMS_def al)
  have q: "C1\<^sup>2 + S1\<^sup>2 = 1" "C2\<^sup>2 + S2\<^sup>2 = 1" "C3\<^sup>2 + S3\<^sup>2 = 1"
    using c1 c2 c3 by (simp_all add: C1_def S1_def C2_def S2_def C3_def S3_def)
  show ?thesis
    unfolding T mult4
    apply (intro exI conjI)
     apply (rule refl)
    using q by algebra
qed


lemma math_inv_firstThreeTransform: "math_inv (firstThreeTransform t1 t2 t3) \<noteq> None"
proof -
  obtain a b c p d e f q g h i r where
    T: "firstThreeTransform t1 t2 t3 = [[a,b,c,p],[d,e,f,q],[g,h,i,r],[0,0,0,1]]"
    and D: "a*(e*i - f*h) - b*(d*i - f*g) + c*(d*h - e*g) = 1"
    using firstThreeTransform_affine[of t1 t2 t3] by blast
  have "math_det (firstThreeTransform t1 t2 t3) = 1"
    unfolding T det4_affine by (rule D)
  then show ?thesis
    unfolding math_inv_def Let_def by (simp add: T)
qed

lemma atan2_bound: "\<bar>atan2 y x\<bar> \<le> pi"
proof -
  have b: "- (pi / 2) < arctan (y / x)" "arctan (y / x) < pi / 2"
    using arctan_bounded[of "y / x"] by simp_all
  have p: "0 < pi" by simp
  consider "x > 0" | "x < 0" "y \<ge> 0" | "x < 0" "y < 0" | "x = 0" "y > 0" | "x = 0" "y < 0"
    | "x = 0" "y = 0"
    by linarith
  then have "- pi \<le> atan2 y x \<and> atan2 y x \<le> pi"
  proof cases
    case 1
    then have "atan2 y x = arctan (y / x)" by (simp add: atan2_def)
    with b p show ?thesis by linarith
  next
    case 2
    then have "y / x \<le> 0" by (simp add: divide_nonneg_neg)
    then have "arctan (y / x) \<le> 0" by simp
    moreover have "atan2 y x = arctan (y / x) + pi" using 2 by (simp add: atan2_def)
    ultimately show ?thesis using b p by linarith
  next
    case 3
    then have "0 < y / x" by (simp add: divide_neg_neg)
    then have "0 < arctan (y / x)" by simp
    moreover have "atan2 y x = arctan (y / x) - pi" using 3 by (simp add: atan2_def)
    ultimately show ?thesis using b p by linarith
  next
    case 4
    then have "atan2 y x = pi / 2" by (simp add: atan2_def)
    with p show ?thesis by linarith
  next
    case 5
    then have "atan2 y x = - pi / 2" by (simp add: atan2_def)
    with p show ?thesis by linarith
  next
    case 6
    then have "atan2 y x = 0" by (simp add: atan2_def)
    with p show ?thesis by linarith
  qed
  then show ?thesis by (simp add: abs_le_iff)
qed

lemma euler_bounds:
  "\<bar>o_rx (extractEulerAnglesFromRotation R)\<bar> \<le> pi
   \<and> \<bar>o_ry (extractEulerAnglesFromRotation R)\<bar> \<le> pi
   \<and> \<bar>o_rz (extractEulerAnglesFromRotation R)\<bar> \<le> pi"
proof -
  have "\<bar>arcsin v\<bar> \<le> pi" if "\<bar>v\<bar> < 0.99999" for v :: real
  proof -
    have "- 1 \<le> v" "v \<le> 1" using that by (simp_all add: abs_if split: if_splits)
    then have "- (pi / 2) \<le> arcsin v" "arcsin v \<le> pi / 2"
      using arcsin_bounded[of v] by simp_all
    then show ?thesis by (simp add: abs_if)
  qed
  then show ?thesis
    by (simp add: extractEulerAnglesFromRotation_def Let_def atan2_bound)
qed

section \<open>The inverse kinematics solver\<close>

lemma poseToMatrix_shape:
  "\<exists>r11 r12 r13 r21 r22 r23 r31 r32 r33.
     poseToMatrix ps = [[r11, r12, r13, p_x (position ps)],
                        [r21, r22, r23, p_y (position ps)],
                        [r31, r32, r33, p_z (position ps)],
                        [0, 0, 0, 1]]"
  by (simp add: poseToMatrix_def Let_def subset3_replace_def math_identity_def mset_def
      ncols_def mget_def upt4)

lemma wristCenter_position: "calculateWristCenter (poseToMatrix ps) = position ps"
proof -
  obtain r11 r12 r13 r21 r22 r23 r31 r32 r33 where
    T: "poseToMatrix ps = [[r11, r12, r13, p_x (position ps)],
                        [r21, r22, r23, p_y (position ps)],
                        [r31, r32, r33, p_z (position ps)],
                        [0, 0, 0, 1]]"
    using poseToMatrix_shape by blast
  have d6: "dh_d (DH_PARAMS ! 5) = 0" by (simp add: DH_PARAMS_def)
  show ?thesis
    unfolding T calculateWristCenter_def Let_def d6
    by (simp add: mget_def math_subtract_def math_scale_def)
qed

lemma solveForBase_elbow:
  "1 < \<bar>elbowArgument wc\<bar> \<Longrightarrow> solveForBase wc theta1 = []"
  by (simp add: solveForBase_def elbowArgument_def Let_def)

lemma solveFirstThreeJoints_unreachable:
  "1 < \<bar>elbowArgument wc\<bar> \<Longrightarrow> solveFirstThreeJoints wc = []"
  by (simp add: solveFirstThreeJoints_def Let_def solveForBase_elbow)

lemma inverseKinematics_unreachable:
  assumes "1 < \<bar>elbowArgument (position ps)\<bar>"
  shows "inverseKinematics ps = []"
  using assms
  by (simp add: inverseKinematics_def Let_def wristCenter_position
      solveFirstThreeJoints_unreachable filterValidSolutions_def)

lemma far_elbow:
  assumes "linkLengthSum < sqrt ((p_x p)\<^sup>2 + (p_y p)\<^sup>2 + (p_z p)\<^sup>2)"
  shows "3.6 < elbowArgument p"
proof -
  define x y z where "x = p_x p" and "y = p_y p" and "z = p_z p"
  define c1 a2 d4 where "c1 = dh_d (DH_PARAMS ! 0)" and "a2 = dh_a (DH_PARAMS ! 1)"
    and "d4 = dh_d (DH_PARAMS ! 2)"
  have c1: "0 \<le> c1" "c1 \<le> 0.2671" and a2: "0 < a2" "a2 \<le> 0.2901"
    and d4: "0 < d4" "d4 \<le> 0.3421"
    unfolding c1_def a2_def d4_def DH_PARAMS_values by simp_all
  define n where "n = sqrt (x\<^sup>2 + y\<^sup>2 + z\<^sup>2)"
  have n: "1.2409 < n"
    using assms linkLengthSum_bounds(1) by (simp add: n_def x_def y_def z_def)
  have S: "n\<^sup>2 = x\<^sup>2 + y\<^sup>2 + z\<^sup>2" by (simp add: n_def)
  have "z\<^sup>2 \<le> n\<^sup>2" by (simp add: S)
  then have "\<bar>z\<bar> \<le> n" using n by (simp add: abs_le_square_iff[symmetric])
  then have zn: "z \<le> n" by simp
  have "0.9738 * 0.9738 < (n - c1) * (n - c1)"
    using n c1 by (intro mult_strict_mono) simp_all
  then have "0.9482 < n * n - 2 * c1 * n + c1 * c1"
    by (simp add: algebra_simps)
  also have "\<dots> \<le> n * n - 2 * c1 * z + c1 * c1"
    using zn c1(1) by (simp add: mult_left_mono)
  also have "\<dots> = x * x + y * y + (z - c1) * (z - c1)"
    using S by (simp add: algebra_simps power2_eq_square)
  finally have K: "0.9482 < x * x + y * y + (z - c1) * (z - c1)" .
  define xx yy ss r rr zr zz s1 s2 s3 den
    where "xx = binary64 (x * x)" and "yy = binary64 (y * y)"
      and "ss = binary64 (xx + yy)" and "r = binary64 (sqrt ss)"
      and "rr = binary64 (r * r)" and "zr = binary64 (z - c1)"
      and "zz = binary64 (zr * zr)" and "s1 = binary64 (rr + zz)"
      and "s2 = binary64 (s1 - binary64 (a2 * a2))"
      and "s3 = binary64 (s2 - binary64 (d4 * d4))"
      and "den = binary64 (binary64 (2 * a2) * d4)"
  have sq: "0 \<le> x * x + y * y" "0 \<le> (z - c1) * (z - c1)" by simp_all
  have xx: "(999999 / 1000000) * (x * x) \<le> xx" and yy: "(999999 / 1000000) * (y * y) \<le> yy"
    unfolding xx_def yy_def by (rule binary64_near(1); simp)+
  have xy: "(999999 / 1000000) * (x * x + y * y) \<le> xx + yy"
    unfolding distrib_left using xx yy by (rule add_mono)
  have xy0: "0 \<le> xx + yy"
    unfolding xx_def yy_def by (intro add_nonneg_nonneg binary64_nonneg) simp_all
  have ss0: "0 \<le> ss" unfolding ss_def using xy0 by (rule binary64_nonneg)
  have f1: "(999999 / 1000000) * (xx + yy) \<le> ss"
    unfolding ss_def using xy0 by (rule binary64_near(1))
  have ss: "(999998 / 1000000) * (x * x + y * y) \<le> ss"
    by (rule lower_chain[OF sq(1) xy _ f1]) simp_all
  have "(999998 / 1000000) * (sqrt ss * sqrt ss) \<le> r * r"
    unfolding r_def by (rule binary64_square_lower)
  then have f2: "(999998 / 1000000) * ss \<le> r * r" using ss0 by simp
  have r2: "(999996 / 1000000) * (x * x + y * y) \<le> r * r"
    by (rule lower_chain[OF sq(1) ss _ f2]) simp_all
  have f3: "(999999 / 1000000) * (r * r) \<le> rr"
    unfolding rr_def by (rule binary64_near(1)) simp
  have rr: "(99999 / 100000) * (x * x + y * y) \<le> rr"
    by (rule lower_chain[OF sq(1) r2 _ f3]) simp_all
  have zr: "(999998 / 1000000) * ((z - c1) * (z - c1)) \<le> zr * zr"
    unfolding zr_def by (rule binary64_square_lower)
  have f4: "(999999 / 1000000) * (zr * zr) \<le> zz"
    unfolding zz_def by (rule binary64_near(1)) simp
  have zz: "(99999 / 100000) * ((z - c1) * (z - c1)) \<le> zz"
    by (rule lower_chain[OF sq(2) zr _ f4]) simp_all
  have "(99999 / 100000) * 0.9482 \<le> (99999 / 100000) * (x * x + y * y + (z - c1) * (z - c1))"
    using K by (intro mult_left_mono) simp_all
  also have "\<dots> = (99999 / 100000) * (x * x + y * y) + (99999 / 100000) * ((z - c1) * (z - c1))"
    by (rule distrib_left)
  also have "\<dots> \<le> rr + zz" using rr zz by (rule add_mono)
  finally have "0.948 \<le> rr + zz" by simp
  then have "(999999 / 1000000) * 0.948 \<le> s1"
    unfolding s1_def by (intro binary64_lower) simp_all
  then have s1: "0.9479 \<le> s1" by simp
  have "a2 * a2 \<le> 0.2901 * 0.2901" using a2 by (intro mult_mono) simp_all
  then have "binary64 (a2 * a2) \<le> (1000001 / 1000000) * (0.2901 * 0.2901)"
    by (intro binary64_upper) simp_all
  then have A: "binary64 (a2 * a2) \<le> 0.0842" by simp
  have "0.8637 \<le> s1 - binary64 (a2 * a2)" using s1 A by simp
  then have "(999999 / 1000000) * 0.8637 \<le> s2"
    unfolding s2_def by (intro binary64_lower) simp_all
  then have s2: "0.8636 \<le> s2" by simp
  have "d4 * d4 \<le> 0.3421 * 0.3421" using d4 by (intro mult_mono) simp_all
  then have "binary64 (d4 * d4) \<le> (1000001 / 1000000) * (0.3421 * 0.3421)"
    by (intro binary64_upper) simp_all
  then have B: "binary64 (d4 * d4) \<le> 0.1171" by simp
  have "0.7465 \<le> s2 - binary64 (d4 * d4)" using s2 B by simp
  then have "(999999 / 1000000) * 0.7465 \<le> s3"
    unfolding s3_def by (intro binary64_lower) simp_all
  then have s3: "0.7464 \<le> s3" by simp
  have "binary64 (2 * a2) \<le> (1000001 / 1000000) * (2 * 0.2901)"
    using a2 by (intro binary64_upper) simp_all
  then have t: "binary64 (2 * a2) \<le> 0.5803" by simp
  have t0: "0 < binary64 (2 * a2)" using a2 by (intro binary64_pos) simp
  have "binary64 (2 * a2) * d4 \<le> 0.5803 * 0.3421"
    using t t0 d4 by (intro mult_mono) simp_all
  then have "den \<le> (1000001 / 1000000) * (0.5803 * 0.3421)"
    unfolding den_def using t0 d4 by (intro binary64_upper) simp_all
  then have den: "den \<le> 0.1986" by simp
  have den0: "0 < den"
    unfolding den_def using t0 d4(1) by (intro binary64_pos) (rule mult_pos_pos)
  have "0.7464 / 0.1986 \<le> s3 / den"
    using s3 den den0 by (intro frac_le) simp_all
  then have "3.7 \<le> s3 / den" by simp
  then have "(999999 / 1000000) * 3.7 \<le> binary64 (s3 / den)"
    by (intro binary64_lower) simp_all
  then have "3.6 < binary64 (s3 / den)" by simp
  moreover have "elbowArgument p = binary64 (s3 / den)"
    unfolding elbowArgument_def Let_def x_def[symmetric] y_def[symmetric] z_def[symmetric]
      c1_def[symmetric] a2_def[symmetric] d4_def[symmetric]
      xx_def[symmetric] yy_def[symmetric] ss_def[symmetric] r_def[symmetric]
      rr_def[symmetric] zr_def[symmetric] zz_def[symmetric] s1_def[symmetric]
      s2_def[symmetric] s3_def[symmetric] den_def[symmetric] ..
  ultimately show ?thesis by simp
qed


text \<open>
  Claim C4.  When the trigonometric argument \<open>D\<close> of the position sub-problem, the
  double that the code computes and tests, lies outside \<open>[-1, 1]\<close> (it is the same on
  both base-rotation branches), and in particular when the target position is farther
  from the base than the sum of the link lengths, \<^verbatim>\<open>inverseKinematics\<close> returns the
  empty list.  In the second case the rounding of each operation cannot bring \<open>D\<close> back
  to \<open>1\<close>: it is above \<open>3.6\<close>.
\<close>

theorem inverseKinematics_out_of_reach:
  assumes "1 < \<bar>elbowArgument (position ps)\<bar>
           \<or> linkLengthSum < sqrt ((p_x (position ps))\<^sup>2 + (p_y (position ps))\<^sup>2 + (p_z (position ps))\<^sup>2)"
  shows "inverseKinematics ps = []"
proof -
  have "1 < \<bar>elbowArgument (position ps)\<bar>"
    using assms far_elbow[of "position ps"] by fastforce
  then show ?thesis by (rule inverseKinematics_unreachable)
qed

theorem inverseKinematics_out_of_reach_witness:
  "linkLengthSum < sqrt (2\<^sup>2 + 0\<^sup>2 + 0\<^sup>2)
   \<and> inverseKinematics \<lparr>position = \<lparr>p_x = 2, p_y = 0, p_z = 0\<rparr>,
                          orientation = \<lparr>o_rx = 0, o_ry = 0, o_rz = 0\<rparr>\<rparr> = []"
proof -
  have h: "linkLengthSum < sqrt (2\<^sup>2 + 0\<^sup>2 + 0\<^sup>2)"
    using linkLengthSum_bounds(2) by simp
  show ?thesis
    using inverseKinematics_out_of_reach[of
        "\<lparr>position = \<lparr>p_x = 2, p_y = 0, p_z = 0\<rparr>,
          orientation = \<lparr>o_rx = 0, o_ry = 0, o_rz = 0\<rparr>\<rparr>"] h
    by simp
qed

lemma those_map_Some:
  "(\<And>x. x \<in> set xs \<Longrightarrow> f x = Some (g x)) \<Longrightarrow> those (map f xs) = Some (map g xs)"
  by (induction xs) simp_all

lemma solveLastThreeJoints_Some:
  "\<exists>t4 t5 t6. solveLastThreeJoints [t1, t2, t3, u, v, w] T = Some [[t1, t2, t3, t4, t5, t6]]
     \<and> \<bar>t4\<bar> \<le> pi \<and> \<bar>t5\<bar> \<le> pi \<and> \<bar>t6\<bar> \<le> pi"
proof -
  obtain Ti where Ti: "math_inv (firstThreeTransform t1 t2 t3) = Some Ti"
    using math_inv_firstThreeTransform[of t1 t2 t3] by auto
  show ?thesis
    using euler_bounds[of "subset3 (math_multiply Ti T)"]
    by (simp add: solveLastThreeJoints_def Let_def Ti)
qed

lemma solveForBase_shape:
  "b \<in> set (solveForBase wc theta1) \<Longrightarrow> \<exists>t2 t3. b = [theta1, t2, t3, 0, 0, 0]"
  by (auto simp: solveForBase_def Let_def split: if_splits)

lemma solveFirstThreeJoints_shape:
  "b \<in> set (solveFirstThreeJoints wc) \<Longrightarrow> \<exists>t1 t2 t3. b = [t1, t2, t3, 0, 0, 0]"
  by (auto simp: solveFirstThreeJoints_def Let_def dest: solveForBase_shape)

lemma inverseKinematics_eq:
  "inverseKinematics ps =
     filterValidSolutions
       (concat (map (\<lambda>b. the (solveLastThreeJoints b (poseToMatrix ps)))
                    (solveFirstThreeJoints (position ps))))"
proof -
  have "those (map (\<lambda>b. solveLastThreeJoints b (poseToMatrix ps)) (solveFirstThreeJoints (position ps)))
        = Some (map (\<lambda>b. the (solveLastThreeJoints b (poseToMatrix ps))) (solveFirstThreeJoints (position ps)))"
  proof (rule those_map_Some)
    fix b assume "b \<in> set (solveFirstThreeJoints (position ps))"
    then obtain t1 t2 t3 where b: "b = [t1, t2, t3, 0, 0, 0]"
      using solveFirstThreeJoints_shape by blast
    obtain s where "solveLastThreeJoints b (poseToMatrix ps) = Some s"
      using solveLastThreeJoints_Some[of t1 t2 t3 0 0 0 "poseToMatrix ps"] b by blast
    then show "solveLastThreeJoints b (poseToMatrix ps) = Some (the (solveLastThreeJoints b (poseToMatrix ps)))"
      by simp
  qed
  then show ?thesis
    by (simp add: inverseKinematics_def Let_def wristCenter_position)
qed

lemma filter_kept_bounded:
  assumes "s \<in> set (filterValidSolutions xs)" and "i < 6" and "i < length s"
  shows "\<bar>s ! i\<bar> \<le> 3.5"
proof -
  have "\<not> list_ex (exceedsBound s) [0..<6]"
    using assms(1) by (simp add: filterValidSolutions_def)
  then have "\<not> exceedsBound s i" using assms(2) by (simp add: list_ex_iff)
  then show ?thesis using assms(3) by (simp add: exceedsBound_def jget_def)
qed

lemma filter_rejects:
  assumes "i < 6" and "i < length s" and "\<bar>s ! i\<bar> > 3.5"
  shows "s \<notin> set (filterValidSolutions xs)"
  using assms filter_kept_bounded[of s xs i] by auto

lemma inverseKinematics_length:
  assumes "s \<in> set (inverseKinematics ps)"
  shows "length s = 6"
proof -
  from assms obtain b where b: "b \<in> set (solveFirstThreeJoints (position ps))"
    and s: "s \<in> set (the (solveLastThreeJoints b (poseToMatrix ps)))"
    unfolding inverseKinematics_eq filterValidSolutions_def by auto
  obtain t1 t2 t3 where "b = [t1, t2, t3, 0, 0, 0]"
    using solveFirstThreeJoints_shape[OF b] by blast
  then obtain t4 t5 t6 where "solveLastThreeJoints b (poseToMatrix ps) = Some [[t1, t2, t3, t4, t5, t6]]"
    using solveLastThreeJoints_Some[of t1 t2 t3 0 0 0 "poseToMatrix ps"] by blast
  with s show ?thesis by simp
qed

lemma atan2_zero_pos: "0 < x \<Longrightarrow> atan2 0 x = 0"
  by (simp add: atan2_def)

lemma elbowArgument_inside:
  assumes z: "p_z wc = dh_d (DH_PARAMS ! 0)"
    and lo: "0.09 \<le> p_x wc * p_x wc + p_y wc * p_y wc"
    and hi: "p_x wc * p_x wc + p_y wc * p_y wc \<le> 0.15"
  shows "\<bar>elbowArgument wc\<bar> \<le> 1"
proof -
  define x y where "x = p_x wc" and "y = p_y wc"
  define a2 d4 where "a2 = dh_a (DH_PARAMS ! 1)" and "d4 = dh_d (DH_PARAMS ! 2)"
  have a2: "0.2899 \<le> a2" "a2 \<le> 0.2901" and d4: "0.3419 \<le> d4" "d4 \<le> 0.3421"
    unfolding a2_def d4_def DH_PARAMS_values by simp_all
  define r where "r = binary64 (sqrt (binary64 (binary64 (x * x) + binary64 (y * y))))"
  define rr s1 s2 s3 den
    where "rr = binary64 (r * r)"
      and "s1 = binary64 (rr + binary64 (binary64 0 * binary64 0))"
      and "s2 = binary64 (s1 - binary64 (a2 * a2))"
      and "s3 = binary64 (s2 - binary64 (d4 * d4))"
      and "den = binary64 (binary64 (2 * a2) * d4)"
  have R: "0.09 \<le> x * x + y * y" "x * x + y * y \<le> 0.15"
    using lo hi by (simp_all add: x_def y_def)
  have "(99999 / 100000) * 0.09 \<le> (99999 / 100000) * (x * x + y * y)"
    using R(1) by (intro mult_left_mono) simp_all
  also have "\<dots> \<le> rr" unfolding rr_def r_def by (rule radius_square(1))
  finally have rr: "0.0899 \<le> rr" by simp
  have "rr \<le> (100001 / 100000) * (x * x + y * y)"
    unfolding rr_def r_def by (rule radius_square(2))
  also have "\<dots> \<le> (100001 / 100000) * 0.15"
    using R(2) by (intro mult_left_mono) simp_all
  finally have rr': "rr \<le> 0.1501" by simp
  have s1eq: "s1 = binary64 rr" by (simp add: s1_def binary64_zero)
  have "(999999 / 1000000) * 0.0899 \<le> s1"
    unfolding s1eq using rr by (intro binary64_lower) simp_all
  then have s1: "0.0898 \<le> s1" by simp
  have "s1 \<le> (1000001 / 1000000) * 0.1501"
    unfolding s1eq using rr rr' by (intro binary64_upper) simp_all
  then have s1': "s1 \<le> 0.1502" by simp
  have "a2 * a2 \<le> 0.2901 * 0.2901" using a2 by (intro mult_mono) simp_all
  then have "binary64 (a2 * a2) \<le> (1000001 / 1000000) * (0.2901 * 0.2901)"
    by (intro binary64_upper) simp_all
  then have A: "binary64 (a2 * a2) \<le> 0.0842" by simp
  have A0: "0 \<le> binary64 (a2 * a2)" by (intro binary64_nonneg) simp
  have d: "0 \<le> s1 - binary64 (a2 * a2)" "s1 - binary64 (a2 * a2) \<le> 0.1502"
    using s1 s1' A A0 by simp_all
  have s2: "0 \<le> s2" unfolding s2_def using d(1) by (rule binary64_nonneg)
  have "s2 \<le> (1000001 / 1000000) * 0.1502"
    unfolding s2_def using d by (intro binary64_upper)
  then have s2': "s2 \<le> 0.1503" by simp
  have "d4 * d4 \<le> 0.3421 * 0.3421" using d4 by (intro mult_mono) simp_all
  then have "binary64 (d4 * d4) \<le> (1000001 / 1000000) * (0.3421 * 0.3421)"
    by (intro binary64_upper) simp_all
  then have B: "binary64 (d4 * d4) \<le> 0.1171" by simp
  have B0: "0 \<le> binary64 (d4 * d4)" by (intro binary64_nonneg) simp
  have "s2 - binary64 (d4 * d4) \<le> 0.1503" and "- 0.1503 \<le> s2 - binary64 (d4 * d4)"
    using s2 s2' B B0 by linarith+
  then have "\<bar>s2 - binary64 (d4 * d4)\<bar> \<le> 0.1503"
    by (intro abs_leI) linarith+
  then have "binary64 \<bar>s2 - binary64 (d4 * d4)\<bar> \<le> (1000001 / 1000000) * 0.1503"
    by (intro binary64_upper) simp_all
  then have s3: "\<bar>s3\<bar> \<le> 0.1504"
    unfolding s3_def binary64_abs by simp
  have "(999999 / 1000000) * (2 * 0.2899) \<le> binary64 (2 * a2)"
    using a2 by (intro binary64_lower) simp_all
  then have t: "0.5797 \<le> binary64 (2 * a2)" by simp
  have "0.5797 * 0.3419 \<le> binary64 (2 * a2) * d4"
    using t d4 by (intro mult_mono) simp_all
  then have "(999999 / 1000000) * (0.5797 * 0.3419) \<le> den"
    unfolding den_def by (intro binary64_lower) simp_all
  then have den: "0.198 \<le> den" by simp
  have "\<bar>s3 / den\<bar> = \<bar>s3\<bar> / den" using den by simp
  also have "\<dots> \<le> 0.1504 / 0.198" using s3 den by (intro frac_le) simp_all
  finally have q: "\<bar>s3 / den\<bar> \<le> 0.76" by simp
  then have "binary64 \<bar>s3 / den\<bar> \<le> (1000001 / 1000000) * 0.76"
    by (intro binary64_upper) simp_all
  then have "\<bar>binary64 (s3 / den)\<bar> \<le> 1" unfolding binary64_abs by simp
  moreover have "elbowArgument wc = binary64 (s3 / den)"
    unfolding elbowArgument_def Let_def z x_def[symmetric] y_def[symmetric]
      a2_def[symmetric] d4_def[symmetric] r_def[symmetric] rr_def[symmetric]
    by (simp add: s1_def s2_def s3_def den_def)
  ultimately show ?thesis by simp
qed

lemma sample_elbow: "\<bar>elbowArgument (position samplePose)\<bar> \<le> 1"
proof (rule elbowArgument_inside)
  show "p_z (position samplePose) = dh_d (DH_PARAMS ! 0)"
    unfolding samplePose_values DH_PARAMS_values by simp
  show "0.09 \<le> p_x (position samplePose) * p_x (position samplePose)
               + p_y (position samplePose) * p_y (position samplePose)"
    unfolding samplePose_values by simp
  show "p_x (position samplePose) * p_x (position samplePose)
          + p_y (position samplePose) * p_y (position samplePose) \<le> 0.15"
    unfolding samplePose_values by simp
qed

lemma sample_theta1:
  "atan2 (p_y (position samplePose)) (p_x (position samplePose)) = sampleAngle"
  unfolding samplePose_values sampleAngle_def double_literals by (simp add: atan2_def)

lemma arctan_sample: "0 \<le> sampleAngle" "pi / 9 < sampleAngle" "sampleAngle + pi \<le> 3.5"
proof -
  define q :: real where "q = binary64 0.111 / binary64 0.3"
  have q: "0.3699 \<le> q" "q \<le> 0.3701" unfolding q_def double_literals by simp_all
  have a: "sampleAngle = arctan q" by (simp add: sampleAngle_def q_def)
  have lo: "(3699/10000::real) - (3699/10000) ^ 3 / 3 \<le> arctan (3699/10000)"
    by (rule arctan_ge_cubic) simp
  have hi: "arctan (3701/10000) \<le> (3701/10000::real) - (3701/10000) ^ 3 / 3 + (3701/10000) ^ 5 / 5"
    by (rule arctan_le_quintic) simp
  have m1: "arctan (3699/10000) \<le> arctan q" using q(1) by (simp add: arctan_le_iff)
  have m2: "arctan q \<le> arctan (3701/10000)" using q(2) by (simp add: arctan_le_iff)
  show "0 \<le> sampleAngle" unfolding a using q(1) by simp
  have "pi / 9 < (3699/10000::real) - (3699/10000) ^ 3 / 3"
    using pi_upper by (simp add: eval_nat_numeral)
  then show "pi / 9 < sampleAngle" unfolding a using lo m1 by linarith
  have "(3701/10000::real) - (3701/10000) ^ 3 / 3 + (3701/10000) ^ 5 / 5 + pi \<le> 3.5"
    using pi_upper by (simp add: eval_nat_numeral)
  then show "sampleAngle + pi \<le> 3.5" unfolding a using hi m2 by linarith
qed

lemma solveForBase_explicit:
  assumes D: "\<bar>elbowArgument wc\<bar> \<le> 1"
    and z: "p_z wc = dh_d (DH_PARAMS ! 0)"
    and r: "0 < p_x wc * p_x wc + p_y wc * p_y wc"
  shows "\<exists>t2 t2' t3. \<bar>t2\<bar> \<le> pi \<and> \<bar>t2'\<bar> \<le> pi \<and> \<bar>t3\<bar> \<le> pi
           \<and> (\<forall>theta1. solveForBase wc theta1 =
                  [[theta1, t2, t3, 0, 0, 0], [theta1, t2', - t3, 0, 0, 0]])"
proof -
  define rr where
    "rr = binary64 (sqrt (binary64 (binary64 (p_x wc * p_x wc) + binary64 (p_y wc * p_y wc))))"
  define a2 where "a2 = dh_a (DH_PARAMS ! 1)"
  define d4 where "d4 = dh_d (DH_PARAMS ! 2)"
  define DD where "DD = elbowArgument wc"
  define t3 where "t3 = atan2 (sqrt (1 - DD * DD)) DD"
  define t2 where "t2 = - atan2 (d4 * sin t3) (a2 + d4 * cos t3)"
  define t2' where "t2' = - atan2 (d4 * sin (- t3)) (a2 + d4 * cos (- t3))"
  have rr: "0 < rr" unfolding rr_def using r by (rule radius_square(3))
  have z0: "atan2 (binary64 (p_z wc - dh_d (DH_PARAMS ! 0))) rr = 0"
    by (simp add: z binary64_zero atan2_zero_pos[OF rr])
  have b2: "\<bar>t2\<bar> \<le> pi"
    using atan2_bound[of "d4 * sin t3" "a2 + d4 * cos t3"] by (simp add: t2_def)
  have b2': "\<bar>t2'\<bar> \<le> pi"
    using atan2_bound[of "d4 * sin (- t3)" "a2 + d4 * cos (- t3)"] by (simp add: t2'_def)
  have b3: "\<bar>t3\<bar> \<le> pi" unfolding t3_def by (rule atan2_bound)
  have DD: "DD = binary64
                (binary64 (binary64 (binary64 (binary64 (rr * rr)
                    + binary64 (binary64 (p_z wc - dh_d (DH_PARAMS ! 0))
                                * binary64 (p_z wc - dh_d (DH_PARAMS ! 0))))
                                     - binary64 (a2 * a2))
                           - binary64 (d4 * d4))
                 / binary64 (binary64 (2 * a2) * d4))"
    unfolding DD_def elbowArgument_def Let_def rr_def a2_def d4_def ..
  have "solveForBase wc theta1 = [[theta1, t2, t3, 0, 0, 0], [theta1, t2', - t3, 0, 0, 0]]"
    for theta1
    using D unfolding DD_def[symmetric]
    unfolding solveForBase_def Let_def rr_def[symmetric] a2_def[symmetric] d4_def[symmetric]
      DD[symmetric] t3_def[symmetric] z0
    by (simp add: t2_def t2'_def)
  then show ?thesis using b2 b2' b3 by blast
qed


text \<open>
  On the edge of the reach the rounding decides.  At \<open>edgePosition\<close> the quotient of
  the exact sum by the exact product is above \<open>1\<close>, but the double that the code
  computes, step by step, is \<^verbatim>\<open>0.9999999999999999\<close>: the branch is not skipped.
\<close>

lemma edge_xx:
  "binary64 ((6831059914795569 / 2 ^ 54) * (6831059914795569 / 2 ^ 54)) = 161896119980655 / 2 ^ 50"
  using binary64_eqI[of "-3" "(6831059914795569 / 2 ^ 54) * (6831059914795569 / 2 ^ 54)" 5180675839380960]
  by (simp add: powr_minus field_simps)

lemma edge_yy:
  "binary64 ((2277019971598523 / 2 ^ 52) * (2277019971598523 / 2 ^ 52)) = 4605045190560853 / 2 ^ 54"
  using binary64_eqI[of "-2" "(2277019971598523 / 2 ^ 52) * (2277019971598523 / 2 ^ 52)" 4605045190560853]
  by (simp add: powr_minus field_simps)

lemma edge_ss:
  "binary64 (161896119980655 / 2 ^ 50 + 4605045190560853 / 2 ^ 54) = 7195383110251333 / 2 ^ 54"
  using binary64_eqI[of "-2" "161896119980655 / 2 ^ 50 + 4605045190560853 / 2 ^ 54" 7195383110251333]
  by (simp add: powr_minus field_simps)

lemma edge_r: "binary64 (sqrt (7195383110251333 / 2 ^ 54)) = 5692549928996307 / 2 ^ 53"
proof -
  let ?s = "7195383110251333 / 2 ^ 54 :: real"
  have lo: "(5692549928996307 / 2 ^ 53 - 1 / 2 ^ 54 :: real) < sqrt ?s"
    by (rule real_less_rsqrt) (simp add: power2_eq_square)
  have hi: "sqrt ?s < (5692549928996307 / 2 ^ 53 + 1 / 2 ^ 54 :: real)"
    by (rule real_less_lsqrt) (simp_all add: power2_eq_square)
  have a: "1 / 2 \<le> sqrt ?s" using lo by simp
  have b: "sqrt ?s < 1" using hi by simp
  have c: "\<bar>sqrt ?s - 5692549928996307 / 2 ^ 53\<bar> < 1 / 2 ^ 54" using lo hi by (simp add: abs_if)
  show ?thesis
    using binary64_eqI[of "-1" "sqrt ?s" 5692549928996307] a b c
    by (simp add: powr_minus field_simps)
qed

lemma edge_rr:
  "binary64 ((5692549928996307 / 2 ^ 53) * (5692549928996307 / 2 ^ 53)) = 1798845777562833 / 2 ^ 52"
  using binary64_eqI[of "-2" "(5692549928996307 / 2 ^ 53) * (5692549928996307 / 2 ^ 53)" 7195383110251332]
  by (simp add: powr_minus field_simps)

lemma edge_s1: "binary64 (1798845777562833 / 2 ^ 52) = 1798845777562833 / 2 ^ 52"
  using binary64_eqI[of "-2" "1798845777562833 / 2 ^ 52" 7195383110251332]
  by (simp add: powr_minus field_simps)

lemma edge_A:
  "binary64 ((5224175567749775 / 2 ^ 54) * (5224175567749775 / 2 ^ 54)) = 6060043658589739 / 2 ^ 56"
  using binary64_eqI[of "-4" "(5224175567749775 / 2 ^ 54) * (5224175567749775 / 2 ^ 54)" 6060043658589739]
  by (simp add: powr_minus field_simps)

lemma edge_s2:
  "binary64 (1798845777562833 / 2 ^ 52 - 6060043658589739 / 2 ^ 56) = 5680372195603897 / 2 ^ 54"
  using binary64_eqI[of "-2" "1798845777562833 / 2 ^ 52 - 6060043658589739 / 2 ^ 56" 5680372195603897]
  by (simp add: powr_minus field_simps)

lemma edge_B:
  "binary64 ((6160924290242839 / 2 ^ 54) * (6160924290242839 / 2 ^ 54)) = 2107036107263051 / 2 ^ 54"
  using binary64_eqI[of "-4" "(6160924290242839 / 2 ^ 54) * (6160924290242839 / 2 ^ 54)" 8428144429052204]
  by (simp add: powr_minus field_simps)

lemma edge_s3:
  "binary64 (5680372195603897 / 2 ^ 54 - 2107036107263051 / 2 ^ 54) = 1786668044170423 / 2 ^ 53"
  using binary64_eqI[of "-3" "5680372195603897 / 2 ^ 54 - 2107036107263051 / 2 ^ 54" 7146672176681692]
  by (simp add: powr_minus field_simps)

lemma edge_t: "binary64 (2 * (5224175567749775 / 2 ^ 54)) = 5224175567749775 / 2 ^ 53"
  using binary64_eqI[of "-1" "2 * (5224175567749775 / 2 ^ 54)" 5224175567749775]
  by (simp add: powr_minus field_simps)

lemma edge_den:
  "binary64 ((5224175567749775 / 2 ^ 53) * (6160924290242839 / 2 ^ 54)) = 7146672176681693 / 2 ^ 55"
  using binary64_eqI[of "-3" "(5224175567749775 / 2 ^ 53) * (6160924290242839 / 2 ^ 54)" 7146672176681693]
  by (simp add: powr_minus field_simps)

lemma edge_D:
  "binary64 ((1786668044170423 / 2 ^ 53) / (7146672176681693 / 2 ^ 55)) = 9007199254740991 / 2 ^ 53"
  using binary64_eqI[of "-1" "(1786668044170423 / 2 ^ 53) / (7146672176681693 / 2 ^ 55)" 9007199254740991]
  by (simp add: powr_minus field_simps)

lemma elbowArgument_edge: "elbowArgument edgePosition = 9007199254740991 / 2 ^ 53"
  unfolding elbowArgument_def Let_def edgePosition_def DH_PARAMS_values vec3.simps
    diff_self binary64_zero mult_zero_left add_0_right
    edge_xx edge_yy edge_ss edge_r edge_rr edge_s1 edge_A edge_s2 edge_B edge_s3 edge_t edge_den edge_D
  ..


lemma edge_exact_quotient:
  "1 < ((p_x edgePosition)\<^sup>2 + (p_y edgePosition)\<^sup>2
          + (p_z edgePosition - dh_d (DH_PARAMS ! 0))\<^sup>2
          - (dh_a (DH_PARAMS ! 1))\<^sup>2 - (dh_d (DH_PARAMS ! 2))\<^sup>2)
        / (2 * dh_a (DH_PARAMS ! 1) * dh_d (DH_PARAMS ! 2))"
  unfolding edgePosition_def DH_PARAMS_values vec3.simps by (simp add: power2_eq_square)

lemma edge_not_skipped: "length (solveForBase edgePosition theta1) = 2"
proof -
  have D: "\<bar>elbowArgument edgePosition\<bar> \<le> 1"
    unfolding elbowArgument_edge by simp
  have z: "p_z edgePosition = dh_d (DH_PARAMS ! 0)"
    unfolding edgePosition_def DH_PARAMS_values by simp
  have r: "0 < p_x edgePosition * p_x edgePosition + p_y edgePosition * p_y edgePosition"
    unfolding edgePosition_def by simp
  obtain t2 t2' t3 where
    "\<And>theta1. solveForBase edgePosition theta1 =
                  [[theta1, t2, t3, 0, 0, 0], [theta1, t2', - t3, 0, 0, 0]]"
    using solveForBase_explicit[OF D z r] by blast
  then show ?thesis by simp
qed

lemma within_bound:
  assumes "\<bar>t1\<bar> \<le> 3.5" "\<bar>t2\<bar> \<le> pi" "\<bar>t3\<bar> \<le> pi" "\<bar>t4\<bar> \<le> pi" "\<bar>t5\<bar> \<le> pi" "\<bar>t6\<bar> \<le> pi"
  shows "\<not> list_ex (exceedsBound [t1, t2, t3, t4, t5, t6]) [0..<6]"
proof -
  have p: "pi \<le> 3.5" using pi_upper by simp
  have "\<not> exceedsBound [t1, t2, t3, t4, t5, t6] i" if "i < 6" for i
  proof -
    from that consider "i = 0" | "i = 1" | "i = 2" | "i = 3" | "i = 4" | "i = 5" by linarith
    then show ?thesis
      using assms p by cases (simp_all add: exceedsBound_def jget_def)
  qed
  then show ?thesis by (simp add: list_ex_iff)
qed

lemma solveLastThreeJoints_kept:
  assumes "\<bar>t1\<bar> \<le> 3.5" "\<bar>t2\<bar> \<le> pi" "\<bar>t3\<bar> \<le> pi"
  shows "\<exists>t4 t5 t6. the (solveLastThreeJoints [t1, t2, t3, 0, 0, 0] T) = [[t1, t2, t3, t4, t5, t6]]
           \<and> \<not> list_ex (exceedsBound [t1, t2, t3, t4, t5, t6]) [0..<6]"
proof -
  obtain t4 t5 t6 where "solveLastThreeJoints [t1, t2, t3, 0, 0, 0] T = Some [[t1, t2, t3, t4, t5, t6]]"
    and "\<bar>t4\<bar> \<le> pi" "\<bar>t5\<bar> \<le> pi" "\<bar>t6\<bar> \<le> pi"
    using solveLastThreeJoints_Some[of t1 t2 t3 0 0 0 T] by blast
  then show ?thesis using within_bound[OF assms] by auto
qed

lemma sample_solutions:
  "\<exists>s1 s2 t2 t3 t4 t5 t6 s4.
      inverseKinematics samplePose = [s1, s2, [sampleAngle + pi, t2, t3, t4, t5, t6], s4]"
proof -
  let ?wc = "position samplePose"
  let ?T = "poseToMatrix samplePose"
  let ?a = "sampleAngle"
  have z: "p_z ?wc = dh_d (DH_PARAMS ! 0)"
    unfolding samplePose_values DH_PARAMS_values by simp
  have r: "0 < p_x ?wc * p_x ?wc + p_y ?wc * p_y ?wc"
    unfolding samplePose_values by simp
  obtain t2 t2' t3 where b: "\<bar>t2\<bar> \<le> pi" "\<bar>t2'\<bar> \<le> pi" "\<bar>t3\<bar> \<le> pi"
    and sb: "\<And>theta1. solveForBase ?wc theta1 =
                  [[theta1, t2, t3, 0, 0, 0], [theta1, t2', - t3, 0, 0, 0]]"
    using solveForBase_explicit[OF sample_elbow z r] by blast
  have base: "solveFirstThreeJoints ?wc =
     [[?a, t2, t3, 0, 0, 0], [?a, t2', - t3, 0, 0, 0],
      [?a + pi, t2, t3, 0, 0, 0], [?a + pi, t2', - t3, 0, 0, 0]]"
    by (simp add: solveFirstThreeJoints_def Let_def sample_theta1 sb)
  have a0: "0 \<le> ?a" by (rule arctan_sample(1))
  have "?a \<le> 3.5" using arctan_sample(3) pi_gt_zero by linarith
  then have a1: "\<bar>?a\<bar> \<le> 3.5" using a0 by (simp only: abs_of_nonneg)
  have "0 \<le> ?a + pi" using a0 pi_gt_zero by linarith
  then have a2: "\<bar>?a + pi\<bar> \<le> 3.5" using arctan_sample(3) by (simp only: abs_of_nonneg)
  have b3': "\<bar>- t3\<bar> \<le> pi" using b(3) by simp
  obtain u4 u5 u6 where s1: "the (solveLastThreeJoints [?a, t2, t3, 0, 0, 0] ?T) = [[?a, t2, t3, u4, u5, u6]]"
    and k1: "\<not> list_ex (exceedsBound [?a, t2, t3, u4, u5, u6]) [0..<6]"
    using solveLastThreeJoints_kept[OF a1 b(1) b(3), of ?T] by blast
  obtain v4 v5 v6 where s2: "the (solveLastThreeJoints [?a, t2', - t3, 0, 0, 0] ?T) = [[?a, t2', - t3, v4, v5, v6]]"
    and k2: "\<not> list_ex (exceedsBound [?a, t2', - t3, v4, v5, v6]) [0..<6]"
    using solveLastThreeJoints_kept[OF a1 b(2) b3', of ?T] by blast
  obtain t4 t5 t6 where s3: "the (solveLastThreeJoints [?a + pi, t2, t3, 0, 0, 0] ?T) = [[?a + pi, t2, t3, t4, t5, t6]]"
    and k3: "\<not> list_ex (exceedsBound [?a + pi, t2, t3, t4, t5, t6]) [0..<6]"
    using solveLastThreeJoints_kept[OF a2 b(1) b(3), of ?T] by blast
  obtain w4 w5 w6 where s4: "the (solveLastThreeJoints [?a + pi, t2', - t3, 0, 0, 0] ?T) = [[?a + pi, t2', - t3, w4, w5, w6]]"
    and k4: "\<not> list_ex (exceedsBound [?a + pi, t2', - t3, w4, w5, w6]) [0..<6]"
    using solveLastThreeJoints_kept[OF a2 b(2) b3', of ?T] by blast
  have "inverseKinematics samplePose =
      [[?a, t2, t3, u4, u5, u6], [?a, t2', - t3, v4, v5, v6],
       [?a + pi, t2, t3, t4, t5, t6], [?a + pi, t2', - t3, w4, w5, w6]]"
    unfolding inverseKinematics_eq base filterValidSolutions_def
    using k1 k2 k3 k4 by (simp add: s1 s2 s3 s4)
  then show ?thesis by blast
qed

text \<open>
  Claim C9, as stated, fails.  The filter compares with \<open>3.5\<close> rad, which is more than
  \<open>200\<close> degrees: for the target \<open>samplePose\<close> \<^verbatim>\<open>inverseKinematics\<close> returns four
  solutions, and joint 1 of the third is above \<open>200\<close> degrees.  And the bound is not
  wider than the operational limit of every joint: joint 6 may turn to \<open>6.28\<close> rad.
\<close>

theorem filter_bound_counterexample:
  "length (inverseKinematics samplePose) = 4
   \<and> 200 * pi / 180 < \<bar>inverseKinematics samplePose ! 2 ! 0\<bar>
   \<and> 3.5 < lim_max (JOINT_LIMITS ! 5)"
proof -
  obtain s1 s2 t2 t3 t4 t5 t6 s4 where
    ik: "inverseKinematics samplePose =
           [s1, s2, [sampleAngle + pi, t2, t3, t4, t5, t6], s4]"
    using sample_solutions by blast
  have "200 * pi / 180 < sampleAngle + pi"
    using arctan_sample(2) by simp
  also have "sampleAngle + pi \<le> \<bar>sampleAngle + pi\<bar>"
    by (rule abs_ge_self)
  finally have "200 * pi / 180 < \<bar>inverseKinematics samplePose ! 2 ! 0\<bar>"
    by (simp add: ik)
  moreover have "3.5 < lim_max (JOINT_LIMITS ! 5)"
    by (simp add: JOINT_LIMITS_values)
  ultimately show ?thesis by (simp add: ik)
qed

text \<open>
  Claim C9, amended.  The filter rejects every candidate whose magnitude on one of its
  six joints is above \<open>3.5\<close> rad, so every solution \<^verbatim>\<open>inverseKinematics\<close> returns
  has six joint values, each within \<open>3.5\<close> rad of zero.  That bound is wider than the
  operational limits of joints 1 to 5 and narrower than those of joint 6.
\<close>

theorem filter_bound_radians:
  "(\<forall>s \<in> set solutions. (\<exists>i<6. i < length s \<and> \<bar>s ! i\<bar> > 3.5)
        \<longrightarrow> s \<notin> set (filterValidSolutions solutions))
   \<and> (\<forall>s \<in> set (inverseKinematics ps). length s = 6 \<and> (\<forall>i<6. \<bar>s ! i\<bar> \<le> 3.5))
   \<and> (\<forall>i<5. - 3.5 < lim_min (JOINT_LIMITS ! i) \<and> lim_max (JOINT_LIMITS ! i) < 3.5)
   \<and> 3.5 < lim_max (JOINT_LIMITS ! 5)"
proof -
  have A: "\<forall>s \<in> set solutions. (\<exists>i<6. i < length s \<and> \<bar>s ! i\<bar> > 3.5)
        \<longrightarrow> s \<notin> set (filterValidSolutions solutions)"
    using filter_rejects by blast
  have B: "\<forall>s \<in> set (inverseKinematics ps). length s = 6 \<and> (\<forall>i<6. \<bar>s ! i\<bar> \<le> 3.5)"
  proof (intro ballI conjI allI impI)
    fix s assume s: "s \<in> set (inverseKinematics ps)"
    show len: "length s = 6" using s by (rule inverseKinematics_length)
    fix i :: nat assume i: "i < 6"
    have "s \<in> set (filterValidSolutions
             (concat (map (\<lambda>b. the (solveLastThreeJoints b (poseToMatrix ps)))
                          (solveFirstThreeJoints (position ps)))))"
      using s by (simp only: inverseKinematics_eq)
    then show "\<bar>s ! i\<bar> \<le> 3.5"
      using i len by (intro filter_kept_bounded) simp_all
  qed
  have C: "\<forall>i<5. - 3.5 < lim_min (JOINT_LIMITS ! i) \<and> lim_max (JOINT_LIMITS ! i) < 3.5"
  proof (intro allI impI)
    fix i :: nat assume "i < 5"
    then consider "i = 0" | "i = 1" | "i = 2" | "i = 3" | "i = 4" by linarith
    then show "- 3.5 < lim_min (JOINT_LIMITS ! i) \<and> lim_max (JOINT_LIMITS ! i) < 3.5"
      by cases (simp_all add: JOINT_LIMITS_values)
  qed
  have D: "3.5 < lim_max (JOINT_LIMITS ! 5)"
    by (simp add: JOINT_LIMITS_values)
  from A B C D show ?thesis by blast
qed

theorem filter_bound_radians_witness:
  "[3.6, 0, 0, 0, 0, 0] \<in> set [[3.6, 0, 0, 0, 0, 0::real]]
   \<and> \<bar>[3.6, 0, 0, 0, 0, 0::real] ! 0\<bar> > 3.5
   \<and> [3.6, 0, 0, 0, 0, 0] \<notin> set (filterValidSolutions [[3.6, 0, 0, 0, 0, 0]])
   \<and> inverseKinematics samplePose ! 2 \<in> set (inverseKinematics samplePose)
   \<and> length (inverseKinematics samplePose ! 2) = 6
   \<and> \<bar>inverseKinematics samplePose ! 2 ! 0\<bar> \<le> 3.5
   \<and> lim_max (JOINT_LIMITS ! 4) < 3.5"
proof -
  have h: "\<exists>i<6. i < length [3.6, 0, 0, 0, 0, 0::real]
             \<and> \<bar>[3.6, 0, 0, 0, 0, 0::real] ! i\<bar> > 3.5"
    by (intro exI[of _ 0]) simp
  obtain s1 s2 t2 t3 t4 t5 t6 s4 where
    ik: "inverseKinematics samplePose =
           [s1, s2, [sampleAngle + pi, t2, t3, t4, t5, t6], s4]"
    using sample_solutions by blast
  then have s: "inverseKinematics samplePose ! 2 \<in> set (inverseKinematics samplePose)"
    by simp
  note T = filter_bound_radians[of "[[3.6, 0, 0, 0, 0, 0]]" samplePose]
  have 1: "[3.6, 0, 0, 0, 0, 0] \<notin> set (filterValidSolutions [[3.6, 0, 0, 0, 0, 0]])"
    using T h by simp
  have 2: "length (inverseKinematics samplePose ! 2) = 6
           \<and> \<bar>inverseKinematics samplePose ! 2 ! 0\<bar> \<le> 3.5"
    using T s by simp
  have 3: "lim_max (JOINT_LIMITS ! 4) < 3.5"
    using T by simp
  from 1 2 3 s show ?thesis by simp
qed

section \<open>The trajectory planner\<close>

text \<open>
  Claim C10.  The rest configuration \<^verbatim>\<open>homePosition\<close>, to which
  \<^verbatim>\<open>executeHoming\<close> plans, is rejected by \<^verbatim>\<open>isTargetSafe\<close>.  None of its
  joints is outside a hard limit; it is the singularity test that fails it, since joint
  5 is \<open>pi / 2\<close>, at distance zero from the centre of the wrist band.
\<close>

theorem homePosition_not_safe:
  "isTargetSafe homePosition = False
   \<and> \<not> list_ex (outsideHardLimit homePosition) [0..<6]
   \<and> isNearSingularity homePosition
   \<and> jread homePosition 4 = Some (pi / 2)
   \<and> \<bar>\<bar>pi / 2\<bar> - pi / 2\<bar> < (0.1::real)"
proof -
  have r4: "jread homePosition 4 = Some (pi / 2)"
    by (simp add: homePosition_def jread_def)
  have band: "\<bar>\<bar>pi / 2\<bar> - pi / 2\<bar> < (0.1::real)"
    by simp
  have sing: "isNearSingularity homePosition" and unsafe: "\<not> isTargetSafe homePosition"
    using wrist_band[OF r4 band] by simp_all
  have "\<not> outsideHardLimit homePosition i" if "i < 6" for i
  proof -
    from that consider "i = 0" | "i = 1" | "i = 2" | "i = 3" | "i = 4" | "i = 5"
      by linarith
    moreover have "\<not> pi < - (297 / 50)" and "\<not> pi < - (227 / 50)"
      using pi_gt_zero by linarith+
    ultimately show ?thesis
      using pi_upper
      by cases (simp_all add: outsideHardLimit_def homePosition_def jread_def jointLimits_values)
  qed
  then have "\<not> list_ex (outsideHardLimit homePosition) [0..<6]"
    by (simp add: list_ex_iff)
  with r4 band sing unsafe show ?thesis by simp
qed

lemma det_quintic: "math_det (quinticMatrix tf) = 4 * tf ^ 9"
  unfolding quinticMatrix_def
  by (simp add: det_lead6 det_lead5 det_lead4 dropAt_0 det3 del: math_det.simps) (simp add: algebra_simps eval_nat_numeral)

lemma inv_quintic:
  assumes "tf \<noteq> 0"
  shows "math_inv (quinticMatrix tf) \<noteq> None"
proof -
  have "math_det (quinticMatrix tf) \<noteq> 0" using assms by (simp add: det_quintic)
  moreover have "length (quinticMatrix tf) = 6" by (simp add: quinticMatrix_def)
  moreover have "\<not> list_ex (\<lambda>row. length row \<noteq> 6) (quinticMatrix tf)" by (simp add: quinticMatrix_def)
  ultimately show ?thesis by (simp add: math_inv_def Let_def)
qed

text \<open>
  Claim C7.  For every \<open>q0\<close>, \<open>qf\<close>, boundary velocities and accelerations, and every
  duration \<open>tf > 0\<close>, \<^verbatim>\<open>quinticPolynomial\<close> returns a trajectory function (the
  matrix of the boundary conditions has determinant \<open>4 tf\<^sup>9\<close>, so \<^verbatim>\<open>math.inv\<close>
  does not throw), and that function is \<open>q0\<close> at every \<open>t \<le> 0\<close> and \<open>qf\<close> at every
  \<open>t \<ge> tf\<close>.
\<close>

theorem quintic_clamps:
  assumes "tf > 0"
  shows "\<exists>f. quinticPolynomial q0 qf tf v0 vf a0 af = Some f
           \<and> (\<forall>t. t \<le> 0 \<longrightarrow> f t = q0) \<and> (\<forall>t. t \<ge> tf \<longrightarrow> f t = qf)"
proof -
  obtain Minv where "math_inv (quinticMatrix tf) = Some Minv"
    using inv_quintic[of tf] assms by auto
  then show ?thesis using assms
    by (auto simp: quinticPolynomial_def Let_def)
qed

theorem quintic_clamps_witness:
  "(2::real) > 0
   \<and> (\<exists>f. quinticPolynomial 0 1 2 0 0 0 0 = Some f
          \<and> f (- 1) = 0 \<and> f 0 = 0 \<and> f 2 = 1 \<and> f 3 = 1)"
proof -
  have h: "(2::real) > 0" by simp
  from quintic_clamps[OF h, of 0 1 0 0 0 0]
  obtain f where f: "quinticPolynomial 0 1 2 0 0 0 0 = Some f"
    and lo: "\<forall>t. t \<le> 0 \<longrightarrow> f t = 0" and hi: "\<forall>t. t \<ge> 2 \<longrightarrow> f t = 1"
    by blast
  have "f (- 1) = 0" and "f 0 = 0" using lo by simp_all
  moreover have "f 2 = 1" and "f 3 = 1" using hi by simp_all
  ultimately show ?thesis using h f by blast
qed


end
